theory Spec2Isabelle
  imports Complex_Main "HOL-Library.Word" "HOL-Library.Signed_Division" "HOL-Library.Monad_Syntax"
begin

unbundle bit_operations_syntax

section \<open>Integer divide and remainder (EmitIntegerDivide, EmitIntegerRemainder)\<close>

text \<open>
  An integer \<open>llvm::Value\<close> of an \<open>n\<close>-bit LLVM integer type is an \<open>'a word\<close> with
  \<open>LENGTH('a) = n\<close>; the \<open>llvm::Type*\<close> argument of the constant helpers is the word type.
\<close>

definition GetOne :: "'a::len word" where
  "GetOne = 1"

definition GetZero :: "'a::len word" where
  "GetZero = 0"

definition GetIntSMin :: "'a::len word" where
  \<comment> \<open>\<open>llvm::APInt::getSignedMinValue\<close>: only the sign bit is set.\<close>
  "GetIntSMin = push_bit (LENGTH('a) - 1) 1"

definition GetMinusOne :: "'a::len word" where
  \<comment> \<open>\<open>llvm::APInt::getAllOnesValue\<close>.\<close>
  "GetMinusOne = NOT 0"

definition IsZero :: "'a::len word \<Rightarrow> bool" where
  "IsZero v = (v = 0)"

definition IsIntMinDivisionOverflow :: "'a::len word \<Rightarrow> 'a word \<Rightarrow> bool" where
  "IsIntMinDivisionOverflow lhs rhs = (lhs = GetIntSMin \<and> rhs = GetMinusOne)"

definition Select :: "bool \<Rightarrow> 'v \<Rightarrow> 'v \<Rightarrow> 'v" where
  "Select cond if_true if_false = (if cond then if_true else if_false)"

text \<open>
  The four LLVM division instructions. Their result is undefined (\<open>None\<close>) for a zero
  divisor, and for the signed ones also for \<open>INT_MIN\<close> divided by \<open>-1\<close>; the signed
  ones truncate towards zero.
\<close>

definition CreateUDiv :: "'a::len word \<Rightarrow> 'a word \<Rightarrow> 'a word option" where
  "CreateUDiv a b = (if b = 0 then None else Some (a div b))"

definition CreateURem :: "'a::len word \<Rightarrow> 'a word \<Rightarrow> 'a word option" where
  "CreateURem a b = (if b = 0 then None else Some (a mod b))"

definition CreateSDiv :: "'a::len word \<Rightarrow> 'a word \<Rightarrow> 'a word option" where
  "CreateSDiv a b =
     (if b = 0 then None
      else if a = GetIntSMin \<and> b = GetMinusOne then None
      else Some (word_of_int (sint a sdiv sint b)))"

definition CreateSRem :: "'a::len word \<Rightarrow> 'a word \<Rightarrow> 'a word option" where
  "CreateSRem a b =
     (if b = 0 then None
      else if a = GetIntSMin \<and> b = GetMinusOne then None
      else Some (word_of_int (sint a smod sint b)))"

text \<open>
  The local \<open>safe_rhs\<close> of both emitters: the divisor handed to the division instruction.
  \<open>udiv_is_unsafe\<close>/\<open>urem_is_unsafe\<close> and \<open>sdiv_is_unsafe\<close>/\<open>srem_is_unsafe\<close> are the
  locals of the same names.
\<close>

definition udiv_is_unsafe :: "'a::len word \<Rightarrow> bool" where
  "udiv_is_unsafe rhs = IsZero rhs"

definition sdiv_is_unsafe :: "'a::len word \<Rightarrow> 'a word \<Rightarrow> bool" where
  "sdiv_is_unsafe lhs rhs = (IsIntMinDivisionOverflow lhs rhs \<or> IsZero rhs)"

definition safe_rhs :: "bool \<Rightarrow> 'a::len word \<Rightarrow> 'a word \<Rightarrow> 'a word" where
  "safe_rhs is_signed lhs rhs =
     (if is_signed then Select (sdiv_is_unsafe lhs rhs) GetOne rhs
      else Select (udiv_is_unsafe rhs) GetOne rhs)"

definition EmitIntegerDivide :: "'a::len word \<Rightarrow> 'a word \<Rightarrow> bool \<Rightarrow> 'a word option" where
  "EmitIntegerDivide lhs rhs is_signed =
     (if \<not> is_signed then
        do {
          safe_div \<leftarrow> CreateUDiv lhs (safe_rhs False lhs rhs);
          Some (Select (udiv_is_unsafe rhs) GetMinusOne safe_div)
        }
      else
        do {
          safe_div \<leftarrow> CreateSDiv lhs (safe_rhs True lhs rhs);
          Some (Select (IsZero rhs) GetMinusOne
                  (Select (IsIntMinDivisionOverflow lhs rhs) GetIntSMin safe_div))
        })"

definition EmitIntegerRemainder :: "'a::len word \<Rightarrow> 'a word \<Rightarrow> bool \<Rightarrow> 'a word option" where
  "EmitIntegerRemainder lhs rhs is_signed =
     (if \<not> is_signed then
        do {
          safe_rem \<leftarrow> CreateURem lhs (safe_rhs False lhs rhs);
          Some (Select (udiv_is_unsafe rhs) lhs safe_rem)
        }
      else
        do {
          safe_rem \<leftarrow> CreateSRem lhs (safe_rhs True lhs rhs);
          Some (Select (IsZero rhs) lhs
                  (Select (IsIntMinDivisionOverflow lhs rhs) GetZero safe_rem))
        })"


section \<open>Precision reduction of 32-bit floats (EmitReducePrecisionFloat)\<close>

text \<open>
  A 32-bit float is its IEEE-754 bit pattern, a \<open>32 word\<close>: the two \<open>CreateBitCast\<close>
  calls of the emitter are the identity on it. \<open>FCmpUNO x x\<close> holds exactly for a NaN:
  all exponent bits set and a mantissa that is not zero.
\<close>

type_synonym f32 = "32 word"

definition f32_sign_bit_mask :: "32 word" where
  "f32_sign_bit_mask = push_bit 31 1"

definition f32_exp_bits_mask :: "32 word" where
  "f32_exp_bits_mask = push_bit 23 0xff"

definition f32_is_nan :: "f32 \<Rightarrow> bool" where
  "f32_is_nan x = (f32_exp_bits_mask < (x AND NOT f32_sign_bit_mask))"

definition f32_is_finite :: "f32 \<Rightarrow> bool" where
  "f32_is_finite x = ((x AND f32_exp_bits_mask) \<noteq> f32_exp_bits_mask)"

definition f32_infinity :: "f32" where
  \<comment> \<open>\<open>llvm::ConstantFP::getInfinity(float_type)\<close>: positive infinity.\<close>
  "f32_infinity = f32_exp_bits_mask"

text \<open>The block under \<open>if (mantissa_bits < 23)\<close>, applied to \<open>x_as_int\<close>.\<close>

definition round_mantissa :: "32 word \<Rightarrow> int \<Rightarrow> 32 word" where
  "round_mantissa x_as_int mantissa_bits =
     (let last_mantissa_bit_mask = (push_bit (nat (23 - mantissa_bits)) 1 :: 32 word);
          base_rounding_bias = drop_bit 1 last_mantissa_bit_mask - 1;
          x_last_mantissa_bit =
            drop_bit (nat (23 - mantissa_bits)) (x_as_int AND last_mantissa_bit_mask);
          x_rounding_bias = x_last_mantissa_bit + base_rounding_bias;
          truncation_mask = NOT (last_mantissa_bit_mask - 1)
      in (x_as_int + x_rounding_bias) AND truncation_mask)"

text \<open>The block under \<open>if (exponent_bits < 8)\<close>, applied to \<open>x_as_int\<close>.\<close>

definition saturate_exponent :: "32 word \<Rightarrow> int \<Rightarrow> 32 word" where
  "saturate_exponent x_as_int exponent_bits =
     (let f32_exponent_bias = (push_bit 7 1 - 1 :: 32 word);
          reduced_exponent_bias = (push_bit (nat (exponent_bits - 1)) 1 - 1 :: 32 word);
          reduced_max_exponent = f32_exponent_bias + reduced_exponent_bias;
          reduced_min_exponent = f32_exponent_bias - reduced_exponent_bias;
          x_exponent = x_as_int AND f32_exp_bits_mask;
          x_overflows = (push_bit 23 reduced_max_exponent < x_exponent);
          x_underflows = (x_exponent \<le> push_bit 23 reduced_min_exponent);
          x_signed_zero = x_as_int AND f32_sign_bit_mask;
          x_signed_inf = x_signed_zero OR f32_exp_bits_mask;
          x_as_int = Select x_overflows x_signed_inf x_as_int;
          x_as_int = Select x_underflows x_signed_zero x_as_int
      in x_as_int)"

text \<open>
  \<open>noNaNs\<close> is the builder's fast-math flag \<open>b->getFastMathFlags().noNaNs()\<close>. The
  arguments are used as the source uses them: the shifts by \<open>23 - mantissa_bits\<close> and
  \<open>exponent_bits - 1\<close> are defined in C++ for \<open>0 \<le> mantissa_bits\<close> and
  \<open>1 \<le> exponent_bits\<close>, which the instruction's shape inference has checked.
\<close>

definition reduced_bit_pattern :: "32 word \<Rightarrow> int \<Rightarrow> int \<Rightarrow> 32 word" where
  \<comment> \<open>The local \<open>x_as_int\<close> after both blocks, which \<open>result\<close> is the bit cast of.\<close>
  "reduced_bit_pattern x exponent_bits mantissa_bits =
     (let x_as_int = x;
          x_as_int = (if mantissa_bits < 23 then round_mantissa x_as_int mantissa_bits
                      else x_as_int);
          x_as_int = (if exponent_bits < 8 then saturate_exponent x_as_int exponent_bits
                      else x_as_int)
      in x_as_int)"

definition EmitReducePrecisionFloat :: "f32 \<Rightarrow> int \<Rightarrow> int \<Rightarrow> bool \<Rightarrow> f32" where
  "EmitReducePrecisionFloat x exponent_bits mantissa_bits noNaNs =
     (let result = reduced_bit_pattern x exponent_bits mantissa_bits
      in if \<not> noNaNs then
           (let x_is_nan = f32_is_nan x
            in if mantissa_bits > 0 then Select x_is_nan x result
               else Select x_is_nan f32_infinity result)
         else result)"

section \<open>Instructions, shapes, values and element generators\<close>

text \<open>
  A \<open>Status\<close> that is not OK. \<open>Unimplemented\<close> and \<open>InvalidArgument\<close> carry the format
  string of the message without its arguments. \<open>Fatal\<close> is not a status of the source:
  it stands for the process abort of a failed \<open>CHECK\<close> or \<open>LOG(FATAL)\<close>, for an
  out-of-range access, and for an LLVM instruction built or run outside its definition.
\<close>

datatype error = Unimplemented string | InvalidArgument string | Fatal string

type_synonym 'a StatusOr = "error + 'a"

definition TF_ASSIGN_OR_RETURN :: "'a StatusOr \<Rightarrow> ('a \<Rightarrow> 'b StatusOr) \<Rightarrow> 'b StatusOr" where
  "TF_ASSIGN_OR_RETURN rexpr cont = (case rexpr of Inl status \<Rightarrow> Inl status | Inr lhs \<Rightarrow> cont lhs)"


datatype PrimitiveType =
    PRIMITIVE_TYPE_INVALID | PRED | S8 | S16 | S32 | S64 | U8 | U16 | U32 | U64
  | F16 | F32 | BF16 | F64 | C64 | TUPLE | OPAQUE

text \<open>
  Modelled from the spec: the predicates of \<open>primitive_util\<close> (its header is not among
  the sources), by the type families the specification names: integer (signed and
  unsigned), boolean (\<open>PRED\<close>), floating point and complex.
\<close>

definition IsSignedIntegralType :: "PrimitiveType \<Rightarrow> bool" where
  "IsSignedIntegralType t = (t = S8 \<or> t = S16 \<or> t = S32 \<or> t = S64)"

definition IsUnsignedIntegralType :: "PrimitiveType \<Rightarrow> bool" where
  "IsUnsignedIntegralType t = (t = U8 \<or> t = U16 \<or> t = U32 \<or> t = U64)"

definition IsIntegralType :: "PrimitiveType \<Rightarrow> bool" where
  "IsIntegralType t = (IsUnsignedIntegralType t \<or> IsSignedIntegralType t)"

definition IsFloatingPointType :: "PrimitiveType \<Rightarrow> bool" where
  "IsFloatingPointType t = (t = F16 \<or> t = F32 \<or> t = F64 \<or> t = BF16)"

definition IsComplexType :: "PrimitiveType \<Rightarrow> bool" where
  "IsComplexType t = (t = C64)"

text \<open>
  The opcodes that the emitter names; \<open>hlo_opcode.h\<close> is not among the sources, so an
  opcode is the name of its enumerator and every other string stands for an opcode the
  emitter does not name.
\<close>

type_synonym HloOpcode = string

abbreviation kAdd :: HloOpcode where "kAdd \<equiv> ''kAdd''"
abbreviation kAtan2 :: HloOpcode where "kAtan2 \<equiv> ''kAtan2''"
abbreviation kComplex :: HloOpcode where "kComplex \<equiv> ''kComplex''"
abbreviation kDivide :: HloOpcode where "kDivide \<equiv> ''kDivide''"
abbreviation kEq :: HloOpcode where "kEq \<equiv> ''kEq''"
abbreviation kGe :: HloOpcode where "kGe \<equiv> ''kGe''"
abbreviation kGt :: HloOpcode where "kGt \<equiv> ''kGt''"
abbreviation kLe :: HloOpcode where "kLe \<equiv> ''kLe''"
abbreviation kLt :: HloOpcode where "kLt \<equiv> ''kLt''"
abbreviation kMaximum :: HloOpcode where "kMaximum \<equiv> ''kMaximum''"
abbreviation kMinimum :: HloOpcode where "kMinimum \<equiv> ''kMinimum''"
abbreviation kMultiply :: HloOpcode where "kMultiply \<equiv> ''kMultiply''"
abbreviation kNe :: HloOpcode where "kNe \<equiv> ''kNe''"
abbreviation kPower :: HloOpcode where "kPower \<equiv> ''kPower''"
abbreviation kRemainder :: HloOpcode where "kRemainder \<equiv> ''kRemainder''"
abbreviation kSubtract :: HloOpcode where "kSubtract \<equiv> ''kSubtract''"
abbreviation kSelect :: HloOpcode where "kSelect \<equiv> ''kSelect''"
abbreviation kRng :: HloOpcode where "kRng \<equiv> ''kRng''"
abbreviation kPad :: HloOpcode where "kPad \<equiv> ''kPad''"
abbreviation kDot :: HloOpcode where "kDot \<equiv> ''kDot''"

text \<open>
  A shape: element type, extents and layout (\<open>minor_to_major\<close>). Modelled from the
  spec: the \<open>ShapeUtil\<close> and \<open>LayoutUtil\<close> helpers (not among the sources), for array
  shapes: the rank is the number of extents, a scalar has rank 0, two shapes are
  compatible ignoring the element type when their extents agree, and two layouts are
  equal when their dimension orders agree.
\<close>

record Shape =
  element_type :: PrimitiveType
  dimensions :: "int list"
  layout :: "int list"

definition Rank :: "Shape \<Rightarrow> nat" where
  "Rank s = length (dimensions s)"

definition IsScalar :: "Shape \<Rightarrow> bool" where
  "IsScalar s = (Rank s = 0)"

definition CompatibleIgnoringElementType :: "Shape \<Rightarrow> Shape \<Rightarrow> bool" where
  "CompatibleIgnoringElementType a b = (dimensions a = dimensions b)"

definition LayoutEqual :: "int list \<Rightarrow> int list \<Rightarrow> bool" where
  "LayoutEqual a b = (a = b)"



record PaddingConfigDimension =
  edge_padding_low :: int
  edge_padding_high :: int
  interior_padding :: int

record DotDimensionNumbers =
  lhs_contracting_dimensions :: "int list"
  rhs_contracting_dimensions :: "int list"

datatype RandomDistribution = RNG_INVALID | RNG_UNIFORM | RNG_NORMAL

text \<open>
  An instruction, with the attributes the modelled emitters read. \<open>unique_id\<close> stands
  for the identity of the node: the generator map is keyed by instruction pointers.
  \<open>IsElementwise\<close> and \<open>IsFused\<close> are the results of the methods of these names, and
  \<open>hlo_dimensions\<close> is the attribute that the method \<open>dimensions\<close> of an instruction
  returns.
\<close>

datatype HloInstruction = HloInstruction
  (unique_id: nat)
  (opcode: HloOpcode)
  (shape: Shape)
  (operands: "HloInstruction list")
  (IsElementwise: bool)
  (IsFused: bool)
  (padding_config: "PaddingConfigDimension list")
  (dot_dimension_numbers: DotDimensionNumbers)
  (random_distribution: RandomDistribution)
  (exponent_bits: int)
  (mantissa_bits: int)
  (hlo_dimensions: "int list")

definition operand :: "HloInstruction \<Rightarrow> nat \<Rightarrow> HloInstruction StatusOr" where
  "operand hlo i =
     (if i < length (operands hlo) then Inr (operands hlo ! i)
      else Inl (Fatal ''operand index out of range''))"

text \<open>
  A run-time value of the emitted code: an integer of 1, 8, 16, 32 or 64 bits (a
  \<open>PRED\<close> is stored in a byte), a floating-point number of the target (the type \<open>'f\<close>),
  or a complex number as the pair of its real and imaginary parts.
\<close>

datatype 'f Value =
    I1 bool | I8 "8 word" | I16 "16 word" | I32 "32 word" | I64 "64 word"
  | FloatV 'f | ComplexV 'f 'f

text \<open>
  A coordinate (\<open>IrArray::Index\<close>): one entry per dimension and an optional linear
  form, all of the index type (\<open>'w = 'i word\<close> for an index type of \<open>LENGTH('i)\<close> bits). An element generator maps a coordinate to a value or a
  failure; the generator map is keyed by the operand instruction.
\<close>

datatype 'w Index = Index (multidim: "'w list") (linear: "'w option")

type_synonym ('i, 'f) ElementGenerator = "'i word Index \<Rightarrow> 'f Value StatusOr"

type_synonym ('i, 'f) HloToElementGeneratorMap =
  "HloInstruction \<Rightarrow> ('i, 'f) ElementGenerator option"

definition empty_Index :: "'w Index" where
  \<comment> \<open>\<open>IrArray::Index(index.GetType())\<close>: the coordinate of rank 0.\<close>
  "empty_Index = Index [] None"

definition at_operand ::
  "('i::len, 'f) HloToElementGeneratorMap \<Rightarrow> HloInstruction \<Rightarrow> nat
     \<Rightarrow> ('i, 'f) ElementGenerator StatusOr"
  where
  \<comment> \<open>\<open>operand_to_generator.at(hlo->operand(i))\<close>; \<open>std::unordered_map::at\<close> throws for a
     missing key.\<close>
  "at_operand operand_to_generator hlo i =
     TF_ASSIGN_OR_RETURN (operand hlo i) (\<lambda>op.
       case operand_to_generator op of
         None \<Rightarrow> Inl (Fatal ''std::out_of_range'')
       | Some generator \<Rightarrow> Inr generator)"

definition index_typed_const :: "int \<Rightarrow> 'i::len word" where
  \<comment> \<open>\<open>llvm::ConstantInt::get(index_type, n)\<close>: \<open>n\<close> truncated to the index type.\<close>
  "index_typed_const n = word_of_int n"

definition ElementwiseSourceIndex ::
  "'i::len word Index \<Rightarrow> HloInstruction \<Rightarrow> nat \<Rightarrow> 'i word Index StatusOr" where
  "ElementwiseSourceIndex target_index hlo operand_no =
     (if \<not> IsElementwise hlo then Inl (Fatal ''CHECK(hlo.IsElementwise())'')
      else TF_ASSIGN_OR_RETURN (operand hlo operand_no) (\<lambda>op.
        let operand_shape = shape op in
        if IsScalar operand_shape then Inr empty_Index
        else if CompatibleIgnoringElementType operand_shape (shape hlo)
                \<and> LayoutEqual (layout operand_shape) (layout (shape hlo))
        then Inr target_index
        else if Rank operand_shape \<noteq> Rank (shape hlo)
        then Inl (Fatal ''CHECK_EQ(Rank(operand_shape), Rank(hlo.shape()))'')
        else if length (multidim target_index) < Rank (shape hlo)
        then Inl (Fatal ''target_index[i] out of range'')
        else if \<exists>i < Rank (shape hlo).
                  dimensions (shape hlo) ! i \<noteq> dimensions operand_shape ! i
                  \<and> dimensions operand_shape ! i \<noteq> 1
        then Inl (Fatal ''CHECK_EQ(1, operand_shape.dimensions(i))'')
        else Inr (Index
                    (map (\<lambda>i. if dimensions (shape hlo) ! i = dimensions operand_shape ! i
                              then multidim target_index ! i
                              else index_typed_const 0)
                       [0 ..< Rank (shape hlo)])
                    None)))"

section \<open>Select (EmitElementalSelect)\<close>

definition CreateTrunc_i1 :: "'f Value \<Rightarrow> bool StatusOr" where
  \<comment> \<open>\<open>b_->CreateTrunc(v, b_->getInt1Ty())\<close>: the lowest bit of an integer value.\<close>
  "CreateTrunc_i1 v =
     (case v of
        I1 b \<Rightarrow> Inr b
      | I8 w \<Rightarrow> Inr (bit w 0)
      | I16 w \<Rightarrow> Inr (bit w 0)
      | I32 w \<Rightarrow> Inr (bit w 0)
      | I64 w \<Rightarrow> Inr (bit w 0)
      | _ \<Rightarrow> Inl (Fatal ''trunc of a value that is not an integer''))"

definition EmitElementalSelect ::
  "HloInstruction \<Rightarrow> ('i::len, 'f) HloToElementGeneratorMap \<Rightarrow> 'i word Index
     \<Rightarrow> 'f Value StatusOr"
  where
  "EmitElementalSelect hlo operand_to_generator index =
     TF_ASSIGN_OR_RETURN (at_operand operand_to_generator hlo 0) (\<lambda>generator0.
     TF_ASSIGN_OR_RETURN (ElementwiseSourceIndex index hlo 0) (\<lambda>index0.
     TF_ASSIGN_OR_RETURN (generator0 index0) (\<lambda>pred_value.
     TF_ASSIGN_OR_RETURN (at_operand operand_to_generator hlo 1) (\<lambda>generator1.
     TF_ASSIGN_OR_RETURN (ElementwiseSourceIndex index hlo 1) (\<lambda>index1.
     TF_ASSIGN_OR_RETURN (generator1 index1) (\<lambda>on_true_value.
     TF_ASSIGN_OR_RETURN (at_operand operand_to_generator hlo 2) (\<lambda>generator2.
     TF_ASSIGN_OR_RETURN (ElementwiseSourceIndex index hlo 2) (\<lambda>index2.
     TF_ASSIGN_OR_RETURN (generator2 index2) (\<lambda>on_false_value.
     TF_ASSIGN_OR_RETURN (CreateTrunc_i1 pred_value) (\<lambda>cond.
       Inr (Select cond on_true_value on_false_value)))))))))))"

section \<open>Floating-point operations of the target\<close>

text \<open>
  The emitter asks the IR builder \<open>b_\<close> for floating-point instructions, intrinsic calls
  and constants; what they compute is fixed by the target, not by the emitter. The
  functions below take these operations as the record \<open>b\<close>: \<open>'f\<close> is the type of the
  target's floating-point numbers, \<open>is_nan\<close> says which of them are NaNs, and
  \<open>ordered_less\<close> and \<open>ordered_equal\<close> compare two numbers that are not NaNs.
  \<open>ConstantFP t r\<close> is the constant of type \<open>t\<close> that the target makes of the literal
  \<open>r\<close> (rounding it as the type requires). \<open>llvm_ir_EmitFloatMax\<close> and
  \<open>llvm_ir_EmitFloatMin\<close> are the NaN-aware helpers of \<open>llvm_ir\<close>, which are not among
  the sources.
\<close>

datatype Intrinsic =
    llvm_exp | llvm_log | llvm_sin | llvm_cos | llvm_fabs | llvm_pow | llvm_sqrt
  | llvm_floor | llvm_ceil | llvm_round

record 'f IRBuilder =
  is_nan :: "'f \<Rightarrow> bool"
  ordered_less :: "'f \<Rightarrow> 'f \<Rightarrow> bool"
  ordered_equal :: "'f \<Rightarrow> 'f \<Rightarrow> bool"
  CreateFAdd :: "'f \<Rightarrow> 'f \<Rightarrow> 'f"
  CreateFSub :: "'f \<Rightarrow> 'f \<Rightarrow> 'f"
  CreateFMul :: "'f \<Rightarrow> 'f \<Rightarrow> 'f"
  CreateFDiv :: "'f \<Rightarrow> 'f \<Rightarrow> 'f"
  CreateFRem :: "'f \<Rightarrow> 'f \<Rightarrow> 'f"
  CreateFNeg :: "'f \<Rightarrow> 'f"
  EmitCallToIntrinsic :: "Intrinsic \<Rightarrow> 'f list \<Rightarrow> 'f"
  ConstantFP :: "PrimitiveType \<Rightarrow> real \<Rightarrow> 'f"
  llvm_ir_EmitFloatMax :: "'f \<Rightarrow> 'f \<Rightarrow> 'f"
  llvm_ir_EmitFloatMin :: "'f \<Rightarrow> 'f \<Rightarrow> 'f"
  CreateUIToFP :: "PrimitiveType \<Rightarrow> int \<Rightarrow> 'f"
  CreateFPTrunc :: "PrimitiveType \<Rightarrow> 'f \<Rightarrow> 'f"

text \<open>
  The \<open>fcmp\<close> instruction, as the LLVM language reference defines its predicates: an
  ordered predicate holds when neither operand is a NaN and the relation holds; an
  unordered one holds when an operand is a NaN or the relation holds.
\<close>

datatype FCmpPredicate =
    FCMP_OEQ | FCMP_OGT | FCMP_OGE | FCMP_OLT | FCMP_OLE | FCMP_ONE | FCMP_ORD
  | FCMP_UNO | FCMP_UEQ | FCMP_UGT | FCMP_UGE | FCMP_ULT | FCMP_ULE | FCMP_UNE

definition is_ordered_predicate :: "FCmpPredicate \<Rightarrow> bool" where
  "is_ordered_predicate pred =
     (pred = FCMP_OEQ \<or> pred = FCMP_OGT \<or> pred = FCMP_OGE \<or> pred = FCMP_OLT
      \<or> pred = FCMP_OLE \<or> pred = FCMP_ONE \<or> pred = FCMP_ORD)"

definition CreateFCmp :: "'f IRBuilder \<Rightarrow> FCmpPredicate \<Rightarrow> 'f \<Rightarrow> 'f \<Rightarrow> bool" where
  "CreateFCmp b pred x y =
     (let uno = (is_nan b x \<or> is_nan b y);
          eq = ordered_equal b x y;
          lt = ordered_less b x y;
          gt = ordered_less b y x
      in case pred of
           FCMP_OEQ \<Rightarrow> \<not> uno \<and> eq
         | FCMP_OGT \<Rightarrow> \<not> uno \<and> gt
         | FCMP_OGE \<Rightarrow> \<not> uno \<and> (gt \<or> eq)
         | FCMP_OLT \<Rightarrow> \<not> uno \<and> lt
         | FCMP_OLE \<Rightarrow> \<not> uno \<and> (lt \<or> eq)
         | FCMP_ONE \<Rightarrow> \<not> uno \<and> \<not> eq
         | FCMP_ORD \<Rightarrow> \<not> uno
         | FCMP_UNO \<Rightarrow> uno
         | FCMP_UEQ \<Rightarrow> uno \<or> eq
         | FCMP_UGT \<Rightarrow> uno \<or> gt
         | FCMP_UGE \<Rightarrow> uno \<or> gt \<or> eq
         | FCMP_ULT \<Rightarrow> uno \<or> lt
         | FCMP_ULE \<Rightarrow> uno \<or> lt \<or> eq
         | FCMP_UNE \<Rightarrow> uno \<or> \<not> eq)"

definition PRED_of_bool :: "bool \<Rightarrow> 'f Value" where
  \<comment> \<open>\<open>CreateZExt\<close> of an \<open>i1\<close> to the type of \<open>PRED\<close>, a byte.\<close>
  "PRED_of_bool c = I8 (if c then 1 else 0)"

definition EmitComparison :: "'f IRBuilder \<Rightarrow> FCmpPredicate \<Rightarrow> 'f \<Rightarrow> 'f \<Rightarrow> 'f Value" where
  \<comment> \<open>Modelled from the spec: \<open>llvm_ir::EmitComparison\<close> (not among the sources), on
     floating-point operands: the comparison, as a boolean stored in a byte.\<close>
  "EmitComparison b predicate lhs_value rhs_value =
     PRED_of_bool (CreateFCmp b predicate lhs_value rhs_value)"

definition float_operands ::
  "'f Value \<Rightarrow> 'f Value \<Rightarrow> ('f \<Rightarrow> 'f \<Rightarrow> 'f Value StatusOr) \<Rightarrow> 'f Value StatusOr" where
  \<comment> \<open>A floating-point instruction takes floating-point operands.\<close>
  "float_operands lhs_value rhs_value cont =
     (case (lhs_value, rhs_value) of
        (FloatV x, FloatV y) \<Rightarrow> cont x y
      | _ \<Rightarrow> Inl (Fatal ''operand of a floating-point instruction is not a float''))"

definition float_instruction ::
  "('f \<Rightarrow> 'f \<Rightarrow> 'f) \<Rightarrow> 'f Value \<Rightarrow> 'f Value \<Rightarrow> 'f Value StatusOr" where
  "float_instruction instruction lhs_value rhs_value =
     float_operands lhs_value rhs_value (\<lambda>lhs rhs. Inr (FloatV (instruction lhs rhs)))"

section \<open>Floating-point emitters\<close>

definition EmitComposeComplex :: "'f IRBuilder \<Rightarrow> HloInstruction \<Rightarrow> 'f \<Rightarrow> 'f option \<Rightarrow> 'f Value" where
  \<comment> \<open>\<open>imag\<close> is \<open>None\<close> for \<open>nullptr\<close>: the imaginary part stays the zero of
     \<open>ConstantAggregateZero\<close>.\<close>
  "EmitComposeComplex b op real_part imag =
     (case imag of
        None \<Rightarrow> ComplexV real_part (ConstantFP b (element_type (shape op)) 0)
      | Some imag_part \<Rightarrow> ComplexV real_part imag_part)"

definition EmitFloatMax :: "'f IRBuilder \<Rightarrow> 'f \<Rightarrow> 'f \<Rightarrow> 'f" where
  "EmitFloatMax b lhs_value rhs_value = llvm_ir_EmitFloatMax b lhs_value rhs_value"

definition EmitFloatMin :: "'f IRBuilder \<Rightarrow> 'f \<Rightarrow> 'f \<Rightarrow> 'f" where
  "EmitFloatMin b lhs_value rhs_value = llvm_ir_EmitFloatMin b lhs_value rhs_value"




definition EmitExp :: "'f IRBuilder \<Rightarrow> PrimitiveType \<Rightarrow> 'f \<Rightarrow> 'f StatusOr" where
  "EmitExp b prim_type v = Inr (EmitCallToIntrinsic b llvm_exp [v])"

definition EmitPow :: "'f IRBuilder \<Rightarrow> PrimitiveType \<Rightarrow> 'f \<Rightarrow> 'f \<Rightarrow> 'f StatusOr" where
  "EmitPow b prim_type lhs rhs = Inr (EmitCallToIntrinsic b llvm_pow [lhs, rhs])"

text \<open>
  \<open>EmitAtan2\<close> and \<open>EmitTanh\<close> do not look at their operands, which are values of any
  kind here; the other helpers take the floating-point number of their operand.
\<close>

definition EmitAtan2 ::
  "'f IRBuilder \<Rightarrow> PrimitiveType \<Rightarrow> 'f Value \<Rightarrow> 'f Value \<Rightarrow> 'f Value StatusOr" where
  "EmitAtan2 b prim_type lhs rhs = Inl (Unimplemented ''atan2'')"



definition EmitExpm1 :: "'f IRBuilder \<Rightarrow> PrimitiveType \<Rightarrow> 'f \<Rightarrow> 'f StatusOr" where
  "EmitExpm1 b prim_type v =
     (let x = v;
          one = ConstantFP b prim_type 1.0;
          half = ConstantFP b prim_type 0.5
      in TF_ASSIGN_OR_RETURN (EmitExp b prim_type v) (\<lambda>exp_x.
         let for_large_x = CreateFSub b exp_x one;
             x_squared = CreateFAdd b x x;
             x_squared_over_two = CreateFMul b x_squared half;
             for_small_x = CreateFAdd b x x_squared_over_two;
             kExponentIsSmallThreshold = 1 / 10 ^ 5;
             abs_x = EmitCallToIntrinsic b llvm_fabs [v];
             x_is_small =
               CreateFCmp b FCMP_OLT abs_x (ConstantFP b prim_type kExponentIsSmallThreshold)
         in Inr (Select x_is_small for_small_x for_large_x)))"

text \<open>
  The opcode of a binary floating-point operation selects the instruction. The
  comparisons are the cases \<open>kEq\<close> to \<open>kGe\<close>.
\<close>

definition EmitFloatBinaryOp ::
  "'f IRBuilder \<Rightarrow> HloInstruction \<Rightarrow> 'f Value \<Rightarrow> 'f Value \<Rightarrow> 'f Value StatusOr" where
  "EmitFloatBinaryOp b op lhs_value rhs_value =
     (if opcode op = kComplex
      then float_operands lhs_value rhs_value (\<lambda>lhs rhs.
             Inr (EmitComposeComplex b op lhs (Some rhs)))
      else if opcode op = kAdd then float_instruction (CreateFAdd b) lhs_value rhs_value
      else if opcode op = kSubtract then float_instruction (CreateFSub b) lhs_value rhs_value
      else if opcode op = kMultiply then float_instruction (CreateFMul b) lhs_value rhs_value
      else if opcode op = kDivide then float_instruction (CreateFDiv b) lhs_value rhs_value
      else if opcode op = kRemainder then float_instruction (CreateFRem b) lhs_value rhs_value
      else if opcode op = kEq
      then float_operands lhs_value rhs_value (\<lambda>lhs rhs.
             Inr (EmitComparison b FCMP_OEQ lhs rhs))
      else if opcode op = kNe
      then float_operands lhs_value rhs_value (\<lambda>lhs rhs.
             Inr (EmitComparison b FCMP_UNE lhs rhs))
      else if opcode op = kLt
      then float_operands lhs_value rhs_value (\<lambda>lhs rhs.
             Inr (EmitComparison b FCMP_OLT lhs rhs))
      else if opcode op = kGt
      then float_operands lhs_value rhs_value (\<lambda>lhs rhs.
             Inr (EmitComparison b FCMP_OGT lhs rhs))
      else if opcode op = kLe
      then float_operands lhs_value rhs_value (\<lambda>lhs rhs.
             Inr (EmitComparison b FCMP_OLE lhs rhs))
      else if opcode op = kGe
      then float_operands lhs_value rhs_value (\<lambda>lhs rhs.
             Inr (EmitComparison b FCMP_OGE lhs rhs))
      else if opcode op = kMaximum then float_instruction (EmitFloatMax b) lhs_value rhs_value
      else if opcode op = kMinimum then float_instruction (EmitFloatMin b) lhs_value rhs_value
      else if opcode op = kPower
      then float_operands lhs_value rhs_value (\<lambda>lhs rhs.
             TF_ASSIGN_OR_RETURN (EmitPow b (element_type (shape op)) lhs rhs)
               (\<lambda>r. Inr (FloatV r)))
      else if opcode op = kAtan2
      then EmitAtan2 b (element_type (shape op)) lhs_value rhs_value
      else Inl (Unimplemented ''binary floating point op''))"

text \<open>
  The inverse error function, evaluated for 32-bit floats only: two polynomials in
  Horner form, selected by whether \<open>w = - log ((1 - x) * (1 + x))\<close> is below 5.
\<close>

definition EmitErfInv :: "'f IRBuilder \<Rightarrow> PrimitiveType \<Rightarrow> 'f \<Rightarrow> 'f StatusOr" where
  "EmitErfInv b prim_type x =
     (if prim_type \<noteq> F32
      then Inl (Unimplemented ''Inverse erf is only implemented for element type F32.'')
      else
        let getFloat = ConstantFP b F32;
            multiply_add = (\<lambda>coefficients w.
              foldl (\<lambda>p coefficient. CreateFAdd b (CreateFMul b p w) (getFloat coefficient))
                (getFloat (hd coefficients)) (tl coefficients));
            w = CreateFNeg b (EmitCallToIntrinsic b llvm_log
                  [CreateFMul b (CreateFSub b (getFloat 1.0) x) (CreateFAdd b (getFloat 1.0) x)]);
            p = (if CreateFCmp b FCMP_OLT w (getFloat 5.0)
                 then
                   let lw = CreateFSub b w (getFloat 2.5);
                       lq = [0.0000000281022636, 0.000000343273939, - 0.0000035233877,
                             - 0.00000439150654, 0.00021858087, - 0.00125372503,
                             - 0.00417768164, 0.246640727, 1.50140941]
                   in multiply_add lq lw
                 else
                   let gw = CreateFSub b (EmitCallToIntrinsic b llvm_sqrt [w]) (getFloat 3.0);
                       gq = [- 0.000200214257, 0.000100950558, 0.00134934322,
                             - 0.00367342844, 0.00573950773, - 0.0076224613,
                             0.00943887047, 1.00167406, 2.83297682]
                   in multiply_add gq gw)
        in Inr (CreateFMul b p x))"

definition EmitErfcInv :: "'f IRBuilder \<Rightarrow> PrimitiveType \<Rightarrow> 'f \<Rightarrow> 'f StatusOr" where
  "EmitErfcInv b prim_type v =
     (let one = ConstantFP b prim_type 1.0
      in EmitErfInv b prim_type (CreateFSub b one v))"

section \<open>Pad (EmitElementalPad)\<close>

definition CreateICmpSGE :: "'a::len word \<Rightarrow> 'a word \<Rightarrow> bool" where
  "CreateICmpSGE a b = (sint b \<le> sint a)"

definition CreateICmpSLT :: "'a::len word \<Rightarrow> 'a word \<Rightarrow> bool" where
  "CreateICmpSLT a b = (sint a < sint b)"

definition undefined_instruction :: "'a option \<Rightarrow> 'a StatusOr" where
  \<comment> \<open>An instruction reached with operands on which LLVM leaves it undefined.\<close>
  "undefined_instruction r =
     (case r of None \<Rightarrow> Inl (Fatal ''undefined behaviour'') | Some v \<Rightarrow> Inr v)"

text \<open>
  One iteration of the loop over the dimensions: the state is the copy \<open>index\<close> of the
  padded coordinate, whose entry \<open>i\<close> the iteration overwrites (its linear form is left
  as it was), and \<open>in_bounds\<close>.
\<close>

definition EmitElementalPad_body ::
  "HloInstruction \<Rightarrow> nat \<Rightarrow> 'i::len word Index \<times> bool \<Rightarrow> ('i word Index \<times> bool) StatusOr"
  where
  "EmitElementalPad_body hlo i state =
     (case state of (index, in_bounds) \<Rightarrow>
      if \<not> i < length (padding_config hlo)
      then Inl (Fatal ''padding_config().dimensions(i) out of range'')
      else
        let pad_dim = padding_config hlo ! i in
        TF_ASSIGN_OR_RETURN (operand hlo 0) (\<lambda>operand0.
        if \<not> i < length (dimensions (shape operand0))
        then Inl (Fatal ''shape().dimensions(i) out of range'')
        else
          let index_i = multidim index ! i - index_typed_const (edge_padding_low pad_dim);
              in_bounds = (in_bounds \<and> CreateICmpSGE index_i (index_typed_const 0))
          in
          TF_ASSIGN_OR_RETURN
            (undefined_instruction
               (CreateURem index_i (index_typed_const (interior_padding pad_dim + 1))))
            (\<lambda>remainder.
          let in_bounds = (in_bounds \<and> index_typed_const 0 = remainder) in
          TF_ASSIGN_OR_RETURN
            (undefined_instruction
               (CreateSDiv index_i (index_typed_const (interior_padding pad_dim + 1))))
            (\<lambda>index_i.
          let in_bounds =
                (in_bounds
                 \<and> CreateICmpSLT index_i
                       (index_typed_const (dimensions (shape operand0) ! i)))
          in Inr (Index ((multidim index)[i := index_i]) (linear index), in_bounds)))))"

fun EmitElementalPad_loop ::
  "HloInstruction \<Rightarrow> nat list \<Rightarrow> 'i::len word Index \<times> bool \<Rightarrow> ('i word Index \<times> bool) StatusOr"
  where
  "EmitElementalPad_loop hlo [] state = Inr state"
| "EmitElementalPad_loop hlo (i # rest) state =
     TF_ASSIGN_OR_RETURN (EmitElementalPad_body hlo i state) (EmitElementalPad_loop hlo rest)"

text \<open>
  Both generators are invoked, the operand's in the true block and the padding value's
  in the false block; the value loaded from \<open>pad_result_addr\<close> after the branch is the
  one stored by the block that \<open>in_bounds\<close> selects.
\<close>

definition EmitElementalPad ::
  "HloInstruction \<Rightarrow> ('i::len, 'f) HloToElementGeneratorMap \<Rightarrow> 'i word Index
     \<Rightarrow> 'f Value StatusOr"
  where
  "EmitElementalPad hlo operand_to_generator padded_index =
     TF_ASSIGN_OR_RETURN
       (EmitElementalPad_loop hlo [0 ..< length (multidim padded_index)] (padded_index, True))
       (\<lambda>(index, in_bounds).
     TF_ASSIGN_OR_RETURN (at_operand operand_to_generator hlo 0) (\<lambda>generator0.
     TF_ASSIGN_OR_RETURN (generator0 index) (\<lambda>operand_value.
     TF_ASSIGN_OR_RETURN (at_operand operand_to_generator hlo 1) (\<lambda>generator1.
     TF_ASSIGN_OR_RETURN (generator1 empty_Index) (\<lambda>padding_value.
       Inr (if in_bounds then operand_value else padding_value))))))"

text \<open>
  The conditions of the claim about Pad, on mathematical integers: \<open>pre\<close> is the signed
  value of the output coordinate minus \<open>edge_padding_low\<close>, taken in the index type.
\<close>

definition pad_pre :: "HloInstruction \<Rightarrow> 'i::len word Index \<Rightarrow> nat \<Rightarrow> int" where
  "pad_pre hlo padded_index d =
     sint (multidim padded_index ! d
           - (index_typed_const (edge_padding_low (padding_config hlo ! d)) :: 'i word))"

definition pad_in_bounds :: "HloInstruction \<Rightarrow> int list \<Rightarrow> 'i::len word Index \<Rightarrow> nat \<Rightarrow> bool" where
  "pad_in_bounds hlo operand_extent padded_index d =
     (let pre = pad_pre hlo padded_index d;
          interior = interior_padding (padding_config hlo ! d)
      in 0 \<le> pre \<and> pre mod (interior + 1) = 0 \<and> pre div (interior + 1) < operand_extent ! d)"

text \<open>
  The coordinate that the loop leaves in \<open>index\<close> and hands to the operand's generator
  (the signed division truncates), and the well-formedness of a Pad instruction for an
  index type of \<open>LENGTH('i)\<close> bits: one padding dimension and one operand extent per
  coordinate entry, an interior padding that is not negative, and \<open>interior + 1\<close> and
  the operand extents representable as signed values of the index type.
\<close>

definition pad_operand_index :: "HloInstruction \<Rightarrow> 'i::len word Index \<Rightarrow> 'i word Index" where
  "pad_operand_index hlo padded_index =
     Index (map (\<lambda>d. word_of_int (pad_pre hlo padded_index d
                                   sdiv (interior_padding (padding_config hlo ! d) + 1)))
                [0 ..< length (multidim padded_index)])
           (linear padded_index)"

definition pad_well_formed :: "HloInstruction \<Rightarrow> int list \<Rightarrow> 'i::len word Index \<Rightarrow> bool" where
  "pad_well_formed hlo operand_extent padded_index =
     (length (padding_config hlo) = length (multidim padded_index)
      \<and> length operand_extent = length (multidim padded_index)
      \<and> list_all (\<lambda>pad_dim. 0 \<le> interior_padding pad_dim
                            \<and> interior_padding pad_dim + 1 < 2 ^ (LENGTH('i) - 1))
           (padding_config hlo)
      \<and> list_all (\<lambda>extent. 0 \<le> extent \<and> extent < 2 ^ (LENGTH('i) - 1)) operand_extent)"

section \<open>Dot (EmitElementalDot)\<close>

definition repeated_field :: "'a list \<Rightarrow> nat \<Rightarrow> 'a StatusOr" where
  \<comment> \<open>Element \<open>i\<close> of a repeated protobuf field; an index out of range is fatal.\<close>
  "repeated_field xs i =
     (if i < length xs then Inr (xs ! i) else Inl (Fatal ''repeated field index out of range''))"

definition shape_dimensions :: "Shape \<Rightarrow> int \<Rightarrow> int StatusOr" where
  \<comment> \<open>\<open>shape.dimensions(i)\<close> for an \<open>int64\<close> \<open>i\<close>.\<close>
  "shape_dimensions s i =
     (if 0 \<le> i \<and> i < int (length (dimensions s)) then Inr (dimensions s ! nat i)
      else Inl (Fatal ''dimension index out of range''))"

definition InsertAt :: "int \<Rightarrow> 'w \<Rightarrow> 'w Index \<Rightarrow> 'w Index StatusOr" where
  \<comment> \<open>Modelled from the spec: \<open>IrArray::Index::InsertAt\<close> (not among the sources) puts a
     new entry before position \<open>index\<close> of the coordinate, \<open>index\<close> at most its size.\<close>
  "InsertAt index v idx =
     (if 0 \<le> index \<and> index \<le> int (length (multidim idx))
      then Inr (Index (take (nat index) (multidim idx) @ v # drop (nat index) (multidim idx))
                  (linear idx))
      else Inl (Fatal ''CHECK_LE(index, size())''))"

text \<open>
  The coordinate of one operand in the loop body: \<open>count\<close> entries of the result
  coordinate from position \<open>start\<close> on, pushed to an empty coordinate, and the induction
  variable inserted at the contracted dimension. For the left operand \<open>start\<close> is 0 and
  \<open>count\<close> is \<open>lhs_dims - 1\<close>; for the right one they are \<open>lhs_dims - 1\<close> and
  \<open>rhs_dims - 1\<close>.
\<close>

definition dot_operand_index ::
  "'w Index \<Rightarrow> int \<Rightarrow> int \<Rightarrow> int \<Rightarrow> 'w \<Rightarrow> 'w Index StatusOr" where
  "dot_operand_index dot_result_index start count contracting_dim ind_var =
     (if 0 < count \<and> (start < 0 \<or> int (length (multidim dot_result_index)) < start + count)
      then Inl (Fatal ''dot_result_index[i] out of range'')
      else InsertAt contracting_dim ind_var
             (Index (take (nat count) (drop (nat start) (multidim dot_result_index))) None))"

text \<open>
  Modelled from the spec: \<open>llvm_ir::PrimitiveTypeToIrType\<close> (not among the sources), as
  far as \<open>llvm::Constant::getNullValue\<close> needs it: the zero of the integer type of the
  element's width (a byte for \<open>PRED\<close>), of the floating-point type, or of both parts of a
  complex number.
\<close>

definition getNullValue :: "'f IRBuilder \<Rightarrow> PrimitiveType \<Rightarrow> 'f Value StatusOr" where
  "getNullValue b t =
     (if t = PRED \<or> t = S8 \<or> t = U8 then Inr (I8 0)
      else if t = S16 \<or> t = U16 \<or> t = BF16 then Inr (I16 0)
      else if t = S32 \<or> t = U32 then Inr (I32 0)
      else if t = S64 \<or> t = U64 then Inr (I64 0)
      else if t = F16 \<or> t = F32 \<or> t = F64 then Inr (FloatV (ConstantFP b t 0))
      else if t = C64 then Inr (ComplexV (ConstantFP b F32 0) (ConstantFP b F32 0))
      else Inl (Fatal ''PrimitiveTypeToIrType''))"

definition CreateAdd :: "'f Value \<Rightarrow> 'f Value \<Rightarrow> 'f Value StatusOr" where
  "CreateAdd lhs rhs =
     (case (lhs, rhs) of
        (I1 x, I1 y) \<Rightarrow> Inr (I1 (x \<noteq> y))
      | (I8 x, I8 y) \<Rightarrow> Inr (I8 (x + y))
      | (I16 x, I16 y) \<Rightarrow> Inr (I16 (x + y))
      | (I32 x, I32 y) \<Rightarrow> Inr (I32 (x + y))
      | (I64 x, I64 y) \<Rightarrow> Inr (I64 (x + y))
      | _ \<Rightarrow> Inl (Fatal ''operands of add are not integers of one type''))"

definition CreateMul :: "'f Value \<Rightarrow> 'f Value \<Rightarrow> 'f Value StatusOr" where
  "CreateMul lhs rhs =
     (case (lhs, rhs) of
        (I1 x, I1 y) \<Rightarrow> Inr (I1 (x \<and> y))
      | (I8 x, I8 y) \<Rightarrow> Inr (I8 (x * y))
      | (I16 x, I16 y) \<Rightarrow> Inr (I16 (x * y))
      | (I32 x, I32 y) \<Rightarrow> Inr (I32 (x * y))
      | (I64 x, I64 y) \<Rightarrow> Inr (I64 (x * y))
      | _ \<Rightarrow> Inl (Fatal ''operands of mul are not integers of one type''))"

definition EmitExtractReal :: "'f Value \<Rightarrow> 'f StatusOr" where
  "EmitExtractReal v =
     (case v of ComplexV re im \<Rightarrow> Inr re
      | _ \<Rightarrow> Inl (Fatal ''extractvalue of a value that is not complex''))"

definition EmitExtractImag :: "'f Value \<Rightarrow> 'f StatusOr" where
  "EmitExtractImag v =
     (case v of ComplexV re im \<Rightarrow> Inr im
      | _ \<Rightarrow> Inl (Fatal ''extractvalue of a value that is not complex''))"

text \<open>The computation of \<open>next_accumulator\<close> in the loop body.\<close>

definition next_accumulator ::
  "'f IRBuilder \<Rightarrow> PrimitiveType \<Rightarrow> 'f Value \<Rightarrow> 'f Value \<Rightarrow> 'f Value \<Rightarrow> 'f Value StatusOr"
  where
  "next_accumulator b primitive_type current_accumulator lhs_value rhs_value =
     (if IsComplexType primitive_type then
        TF_ASSIGN_OR_RETURN (EmitExtractReal lhs_value) (\<lambda>lhs_real.
        TF_ASSIGN_OR_RETURN (EmitExtractReal rhs_value) (\<lambda>rhs_real.
        TF_ASSIGN_OR_RETURN (EmitExtractImag lhs_value) (\<lambda>lhs_imag.
        TF_ASSIGN_OR_RETURN (EmitExtractImag rhs_value) (\<lambda>rhs_imag.
        let product_real =
              CreateFSub b (CreateFMul b lhs_real rhs_real) (CreateFMul b lhs_imag rhs_imag);
            product_imag =
              CreateFAdd b (CreateFMul b lhs_real rhs_imag) (CreateFMul b lhs_imag rhs_real)
        in
        TF_ASSIGN_OR_RETURN (EmitExtractReal current_accumulator) (\<lambda>accumulator_real.
        TF_ASSIGN_OR_RETURN (EmitExtractImag current_accumulator) (\<lambda>accumulator_imag.
          Inr (ComplexV (CreateFAdd b accumulator_real product_real)
                        (CreateFAdd b accumulator_imag product_imag))))))))
      else if IsFloatingPointType primitive_type then
        TF_ASSIGN_OR_RETURN (float_instruction (CreateFMul b) lhs_value rhs_value) (\<lambda>product.
          float_instruction (CreateFAdd b) current_accumulator product)
      else
        TF_ASSIGN_OR_RETURN (CreateMul lhs_value rhs_value) (\<lambda>product.
          CreateAdd current_accumulator product))"

text \<open>
  Modelled from the spec: the loop that \<open>llvm_ir::ForLoop::EmitForLoop\<close> (not among the
  sources) emits for \<open>start = 0\<close> and \<open>step = 1\<close>: the body runs for the induction
  variable 0, 1, ... up to the end value, which is read as an unsigned number. The
  accumulator stored in \<open>dot_acc\<close> is the state of the loop; \<open>n\<close> counts the iterations
  that remain.
\<close>

fun ForLoop ::
  "('i::len word \<Rightarrow> 'a \<Rightarrow> 'a StatusOr) \<Rightarrow> nat \<Rightarrow> 'i word \<Rightarrow> 'a \<Rightarrow> 'a StatusOr" where
  "ForLoop body 0 ind_var acc = Inr acc"
| "ForLoop body (Suc n) ind_var acc =
     TF_ASSIGN_OR_RETURN (body ind_var acc) (ForLoop body n (ind_var + 1))"

definition EmitElementalDot_body ::
  "'f IRBuilder \<Rightarrow> HloInstruction \<Rightarrow> ('i::len, 'f) ElementGenerator \<Rightarrow> ('i, 'f) ElementGenerator
     \<Rightarrow> int \<Rightarrow> int \<Rightarrow> int \<Rightarrow> int \<Rightarrow> 'i word Index \<Rightarrow> 'i word \<Rightarrow> 'f Value \<Rightarrow> 'f Value StatusOr"
  where
  "EmitElementalDot_body b hlo lhs_generator rhs_generator lhs_dims rhs_dims
       lhs_contracting_dim rhs_contracting_dim dot_result_index ind_var current_accumulator =
     TF_ASSIGN_OR_RETURN
       (dot_operand_index dot_result_index 0 (lhs_dims - 1) lhs_contracting_dim ind_var)
       (\<lambda>lhs_index.
     TF_ASSIGN_OR_RETURN
       (dot_operand_index dot_result_index (lhs_dims - 1) (rhs_dims - 1) rhs_contracting_dim
          ind_var)
       (\<lambda>rhs_index.
     TF_ASSIGN_OR_RETURN (lhs_generator lhs_index) (\<lambda>lhs_value.
     TF_ASSIGN_OR_RETURN (rhs_generator rhs_index) (\<lambda>rhs_value.
       next_accumulator b (element_type (shape hlo)) current_accumulator lhs_value rhs_value))))"

text \<open>
  The emitter reads the type of the coordinates from the first entry of the result
  coordinate, which a scalar result does not have. It emits the body of the loop once,
  whatever the contracted extent: there it calls the two operand generators, once each,
  and a failure of either is the result of the emitter. A generator is here a function
  of the run-time coordinate, so the one call of the emitter is the call at the first
  value of the induction variable, 0: the body is evaluated there once, for its status
  only, before the loop runs it for every value of the induction variable.
\<close>

definition EmitElementalDot ::
  "'f IRBuilder \<Rightarrow> HloInstruction \<Rightarrow> ('i::len, 'f) HloToElementGeneratorMap \<Rightarrow> 'i word Index
     \<Rightarrow> 'f Value StatusOr"
  where
  "EmitElementalDot b hlo operand_to_generator dot_result_index =
     TF_ASSIGN_OR_RETURN (at_operand operand_to_generator hlo 0) (\<lambda>lhs_generator.
     TF_ASSIGN_OR_RETURN (at_operand operand_to_generator hlo 1) (\<lambda>rhs_generator.
     let dim_numbers = dot_dimension_numbers hlo in
     TF_ASSIGN_OR_RETURN (repeated_field (lhs_contracting_dimensions dim_numbers) 0)
       (\<lambda>lhs_contracting_dim.
     TF_ASSIGN_OR_RETURN (repeated_field (rhs_contracting_dimensions dim_numbers) 0)
       (\<lambda>rhs_contracting_dim.
     TF_ASSIGN_OR_RETURN (operand hlo 0) (\<lambda>operand0.
     TF_ASSIGN_OR_RETURN (operand hlo 1) (\<lambda>operand1.
     TF_ASSIGN_OR_RETURN (shape_dimensions (shape operand0) lhs_contracting_dim)
       (\<lambda>contracted_dim_size.
     let lhs_dims = int (length (dimensions (shape operand0)));
         rhs_dims = int (length (dimensions (shape operand1)))
     in
     if multidim dot_result_index = [] then Inl (Fatal ''dot_result_index[0] out of range'')
     else
       TF_ASSIGN_OR_RETURN (getNullValue b (element_type (shape hlo))) (\<lambda>zero.
       let body = EmitElementalDot_body b hlo lhs_generator rhs_generator lhs_dims rhs_dims
                    lhs_contracting_dim rhs_contracting_dim dot_result_index
       in
       TF_ASSIGN_OR_RETURN (body 0 zero) (\<lambda>emitted.
         ForLoop body (unat (index_typed_const contracted_dim_size :: 'i word)) 0 zero)))))))))"

text \<open>
  Vocabulary for the statement about Dot: the value of an integer element type that
  holds a given number, the operand coordinates of one loop iteration, and the
  well-formedness of a Dot instruction with one contracted dimension per side, whose
  operands have \<open>lhs_free + 1\<close> and \<open>rhs_free + 1\<close> dimensions.
\<close>

definition int_value :: "PrimitiveType \<Rightarrow> int \<Rightarrow> 'f Value" where
  "int_value t n =
     (if t = PRED \<or> t = S8 \<or> t = U8 then I8 (word_of_int n)
      else if t = S16 \<or> t = U16 then I16 (word_of_int n)
      else if t = S32 \<or> t = U32 then I32 (word_of_int n)
      else I64 (word_of_int n))"

definition contraction_coordinate :: "'w list \<Rightarrow> int \<Rightarrow> 'w \<Rightarrow> 'w Index" where
  "contraction_coordinate free contracting_dim t =
     Index (take (nat contracting_dim) free @ t # drop (nat contracting_dim) free) None"

definition dot_well_formed ::
  "HloInstruction \<Rightarrow> ('i::len, 'f) HloToElementGeneratorMap \<Rightarrow> 'i word Index
   \<Rightarrow> ('i, 'f) ElementGenerator \<Rightarrow> ('i, 'f) ElementGenerator \<Rightarrow> int \<Rightarrow> int \<Rightarrow> nat \<Rightarrow> nat \<Rightarrow> nat \<Rightarrow> bool" where
  "dot_well_formed hlo operand_to_generator dot_result_index lhs_gen rhs_gen lc rc lhs_free rhs_free extent =
     (\<exists>operand0 operand1.
        operands hlo = [operand0, operand1]
      \<and> operand_to_generator operand0 = Some lhs_gen
      \<and> operand_to_generator operand1 = Some rhs_gen
      \<and> repeated_field (lhs_contracting_dimensions (dot_dimension_numbers hlo)) 0 = Inr lc
      \<and> repeated_field (rhs_contracting_dimensions (dot_dimension_numbers hlo)) 0 = Inr rc
      \<and> length (dimensions (shape operand0)) = Suc lhs_free
      \<and> length (dimensions (shape operand1)) = Suc rhs_free
      \<and> 0 \<le> lc \<and> lc \<le> int lhs_free \<and> 0 \<le> rc \<and> rc \<le> int rhs_free
      \<and> dimensions (shape operand0) ! nat lc = int extent
      \<and> int extent < 2 ^ LENGTH('i)
      \<and> length (multidim dot_result_index) = lhs_free + rhs_free)"

definition dot_lhs_index :: "'w Index \<Rightarrow> nat \<Rightarrow> int \<Rightarrow> 'w \<Rightarrow> 'w Index" where
  "dot_lhs_index dot_result_index lhs_free lc t =
     contraction_coordinate (take lhs_free (multidim dot_result_index)) lc t"

definition dot_rhs_index :: "'w Index \<Rightarrow> nat \<Rightarrow> int \<Rightarrow> 'w \<Rightarrow> 'w Index" where
  "dot_rhs_index dot_result_index lhs_free rc t =
     contraction_coordinate (drop lhs_free (multidim dot_result_index)) rc t"

section \<open>Random numbers (MakePhiloxRngElementGenerator)\<close>

definition CreateSub :: "'f Value \<Rightarrow> 'f Value \<Rightarrow> 'f Value StatusOr" where
  "CreateSub lhs rhs =
     (case (lhs, rhs) of
        (I1 x, I1 y) \<Rightarrow> Inr (I1 (x \<noteq> y))
      | (I8 x, I8 y) \<Rightarrow> Inr (I8 (x - y))
      | (I16 x, I16 y) \<Rightarrow> Inr (I16 (x - y))
      | (I32 x, I32 y) \<Rightarrow> Inr (I32 (x - y))
      | (I64 x, I64 y) \<Rightarrow> Inr (I64 (x - y))
      | _ \<Rightarrow> Inl (Fatal ''operands of sub are not integers of one type''))"

definition CreateURem_values :: "'f Value \<Rightarrow> 'f Value \<Rightarrow> 'f Value StatusOr" where
  "CreateURem_values lhs rhs =
     (case (lhs, rhs) of
        (I1 x, I1 y) \<Rightarrow> (if y then Inr (I1 False) else Inl (Fatal ''undefined behaviour''))
      | (I8 x, I8 y) \<Rightarrow> TF_ASSIGN_OR_RETURN (undefined_instruction (CreateURem x y)) (\<lambda>r. Inr (I8 r))
      | (I16 x, I16 y) \<Rightarrow> TF_ASSIGN_OR_RETURN (undefined_instruction (CreateURem x y)) (\<lambda>r. Inr (I16 r))
      | (I32 x, I32 y) \<Rightarrow> TF_ASSIGN_OR_RETURN (undefined_instruction (CreateURem x y)) (\<lambda>r. Inr (I32 r))
      | (I64 x, I64 y) \<Rightarrow> TF_ASSIGN_OR_RETURN (undefined_instruction (CreateURem x y)) (\<lambda>r. Inr (I64 r))
      | _ \<Rightarrow> Inl (Fatal ''operands of urem are not integers of one type''))"

definition float_value :: "'f Value \<Rightarrow> 'f StatusOr" where
  "float_value v =
     (case v of FloatV x \<Rightarrow> Inr x
      | _ \<Rightarrow> Inl (Fatal ''operand of a floating-point instruction is not a float''))"

definition isFloatingPointTy :: "PrimitiveType \<Rightarrow> bool" where
  "isFloatingPointTy t = (t = F16 \<or> t = F32 \<or> t = F64)"

definition ConvertValueForDistribution ::
  "'f IRBuilder \<Rightarrow> HloInstruction \<Rightarrow> ('i::len, 'f) HloToElementGeneratorMap \<Rightarrow> 'i word Index
     \<Rightarrow> 'f Value \<Rightarrow> 'f Value StatusOr"
  where
  "ConvertValueForDistribution b hlo operand_to_generator index raw_value =
     TF_ASSIGN_OR_RETURN (at_operand operand_to_generator hlo 0) (\<lambda>generator0.
     TF_ASSIGN_OR_RETURN (generator0 index) (\<lambda>a_or_mean.
     TF_ASSIGN_OR_RETURN (at_operand operand_to_generator hlo 1) (\<lambda>generator1.
     TF_ASSIGN_OR_RETURN (generator1 index) (\<lambda>b_or_sigma.
     let elem_prim_ty = element_type (shape hlo) in
     TF_ASSIGN_OR_RETURN
       (if isFloatingPointTy elem_prim_ty then
          (case raw_value of
             I32 raw \<Rightarrow>
               (let elem_value = CreateUIToFP b F32 (uint raw);
                    elem_value = CreateFDiv b elem_value (ConstantFP b F32 (2 ^ 32))
                in Inr (FloatV (if elem_prim_ty \<noteq> F32 then CreateFPTrunc b elem_prim_ty elem_value
                                else elem_value)))
           | I64 raw \<Rightarrow>
               (let elem_value = CreateUIToFP b F64 (uint raw);
                    elem_value = CreateFDiv b elem_value (ConstantFP b F64 (2 ^ 64))
                in Inr (FloatV (if elem_prim_ty \<noteq> F64 then CreateFPTrunc b elem_prim_ty elem_value
                                else elem_value)))
           | _ \<Rightarrow> Inl (Fatal ''CHECK(raw_value_size_in_bits == 32 || raw_value_size_in_bits == 64)''))
        else Inr raw_value)
       (\<lambda>elem_value.
     case random_distribution hlo of
       RNG_UNIFORM \<Rightarrow>
         (if isFloatingPointTy elem_prim_ty then
            TF_ASSIGN_OR_RETURN (float_instruction (CreateFSub b) b_or_sigma a_or_mean) (\<lambda>range.
            TF_ASSIGN_OR_RETURN (float_instruction (CreateFMul b) range elem_value) (\<lambda>scaled.
              float_instruction (CreateFAdd b) scaled a_or_mean))
          else
            TF_ASSIGN_OR_RETURN (CreateSub b_or_sigma a_or_mean) (\<lambda>range.
            TF_ASSIGN_OR_RETURN (CreateURem_values elem_value range) (\<lambda>remainder.
              CreateAdd a_or_mean remainder)))
     | RNG_NORMAL \<Rightarrow>
         (if \<not> isFloatingPointTy elem_prim_ty
          then Inl (Fatal ''ConstantFP of a type that is not floating-point'')
          else
            TF_ASSIGN_OR_RETURN (float_value elem_value) (\<lambda>u.
            TF_ASSIGN_OR_RETURN
              (EmitErfcInv b elem_prim_ty (CreateFMul b (ConstantFP b elem_prim_ty 2.0) u)) (\<lambda>r.
            TF_ASSIGN_OR_RETURN (float_instruction (CreateFMul b) (FloatV r) b_or_sigma) (\<lambda>scaled.
              float_instruction (CreateFAdd b) scaled a_or_mean))))
     | _ \<Rightarrow> Inl (InvalidArgument ''unhandled distribution''))))))"

definition GetNumberOfElementsPerPhiloxRngSample :: "PrimitiveType \<Rightarrow> int StatusOr" where
  "GetNumberOfElementsPerPhiloxRngSample elem_prim_ty =
     (if elem_prim_ty = U32 \<or> elem_prim_ty = S32 \<or> elem_prim_ty = F32 \<or> elem_prim_ty = F16
      then Inr 4
      else if elem_prim_ty = U64 \<or> elem_prim_ty = S64 \<or> elem_prim_ty = F64
      then Inr 2
      else Inl (Fatal ''Unrecognized primitive type for RNG''))"

text \<open>
  Modelled from the spec: \<open>llvm_ir::SplitInt64ToInt32s\<close> and \<open>llvm_ir::UMulLowHigh32\<close>
  (not among the sources) give the lower and the upper 32 bits, in this order, of a
  64-bit number and of the 64-bit product of two 32-bit numbers read as unsigned.
\<close>

definition SplitInt64ToInt32s :: "64 word \<Rightarrow> 32 word \<times> 32 word" where
  "SplitInt64ToInt32s value_64bits = (ucast value_64bits, ucast (drop_bit 32 value_64bits))"

definition UMulLowHigh32 :: "32 word \<Rightarrow> 32 word \<Rightarrow> 32 word \<times> 32 word" where
  "UMulLowHigh32 src0 src1 =
     SplitInt64ToInt32s ((ucast src0 :: 64 word) * (ucast src1 :: 64 word))"

definition philoxW32A :: "32 word" where "philoxW32A = 0x9E3779B9"

definition philoxW32B :: "32 word" where "philoxW32B = 0xBB67AE85"

definition philoxM4xW32A :: "32 word" where "philoxM4xW32A = 0xD2511F53"

definition philoxM4xW32B :: "32 word" where "philoxM4xW32B = 0xCD9E8D57"

fun CalculateSampleValues_loop ::
  "nat \<Rightarrow> 32 word list \<times> 32 word list \<Rightarrow> 32 word list \<times> 32 word list" where
  "CalculateSampleValues_loop 0 state = state"
| "CalculateSampleValues_loop (Suc n) (counter_values, key_values) =
     (let (lo0, hi0) = UMulLowHigh32 philoxM4xW32A (counter_values ! 0);
          (lo1, hi1) = UMulLowHigh32 philoxM4xW32B (counter_values ! 2);
          counter_values = counter_values [0 := hi1 XOR (counter_values ! 1 XOR key_values ! 0)];
          counter_values = counter_values [1 := lo1];
          counter_values = counter_values [2 := hi0 XOR (counter_values ! 3 XOR key_values ! 1)];
          counter_values = counter_values [3 := lo0];
          key_values = key_values [0 := key_values ! 0 + philoxW32A];
          key_values = key_values [1 := key_values ! 1 + philoxW32B]
      in CalculateSampleValues_loop n (counter_values, key_values))"

definition CalculateSampleValues ::
  "'i::len word \<Rightarrow> 64 word \<Rightarrow> 64 word \<Rightarrow> 64 word \<Rightarrow> 32 word list StatusOr" where
  "CalculateSampleValues sample_idx hlo_random_value global_random_number rng_state =
     (let index_ty_size_in_bits = LENGTH('i) in
      if \<not> (index_ty_size_in_bits = 32 \<or> index_ty_size_in_bits = 64)
      then Inl (Fatal ''CHECK(index_ty_size_in_bits == 32 || index_ty_size_in_bits == 64)'')
      else
        let (counter0, counter1) =
              (if index_ty_size_in_bits = 32 then (ucast sample_idx, 0)
               else SplitInt64ToInt32s (ucast sample_idx));
            (counter2, counter3) = SplitInt64ToInt32s (rng_state XOR global_random_number);
            (key0, key1) = SplitInt64ToInt32s hlo_random_value
        in Inr (fst (CalculateSampleValues_loop 10
                       ([counter0, counter1, counter2, counter3], [key0, key1]))))"

text \<open>
  Modelled from the spec: \<open>IrArray::Index::Linearize\<close> (not among the sources) gives the
  row-major position of a coordinate in a shape of the given extents, in the arithmetic
  of the index type.
\<close>

fun Linearize_loop :: "int list \<Rightarrow> 'i::len word list \<Rightarrow> 'i word \<Rightarrow> 'i word" where
  "Linearize_loop (extent # extents) (i # coordinates) position =
     Linearize_loop extents coordinates (position * index_typed_const extent + i)"
| "Linearize_loop _ _ position = position"

definition Linearize :: "int list \<Rightarrow> 'i::len word Index \<Rightarrow> 'i word StatusOr" where
  "Linearize extents index =
     (if length extents \<noteq> length (multidim index)
      then Inl (Fatal ''CHECK_EQ(size(), dimensions.size())'')
      else Inr (Linearize_loop extents (multidim index) 0))"

text \<open>
  What is fixed when the generator is made: the number that the module's random number
  generator returns for this instruction (\<open>RandomNew64\<close>), the seed of the module's
  configuration, the number that \<open>GlobalRandomValue\<close> returns if it is asked, and the
  value that the load from the state variable of the Philox algorithm gives.
\<close>

record RngContext =
  RandomNew64 :: "64 word"
  seed :: "64 word"
  GlobalRandomValue :: "64 word"
  rng_state_value :: "64 word"

definition global_seed :: "RngContext \<Rightarrow> 64 word" where
  "global_seed ctx =
     (if seed ctx \<noteq> 0 then seed ctx else GlobalRandomValue ctx)"

text \<open>
  The stack storage \<open>sample\<close> of four 32-bit words is the state of a call of the
  generator: the call stores the four counter values to it and loads the raw value of
  the element from it, as a 32-bit word at the offset of the element or, for 64-bit
  elements, as the 64-bit word made of the two 32-bit words at twice the offset (the
  lower word first, as on a little-endian target).
\<close>

type_synonym sample_storage = "32 word list"

definition store_counter_values :: "32 word list \<Rightarrow> sample_storage \<Rightarrow> sample_storage" where
  "store_counter_values counter_values sample =
     foldl (\<lambda>sample idx. sample [idx := counter_values ! idx]) sample [0 ..< 4]"

definition load_raw_elem_value :: "int \<Rightarrow> sample_storage \<Rightarrow> nat \<Rightarrow> 'f Value StatusOr" where
  "load_raw_elem_value elems_per_sample sample elem_offset =
     (if elems_per_sample = 2
      then (if 2 * elem_offset + 1 < length sample
            then Inr (I64 (push_bit 32 (ucast (sample ! (2 * elem_offset + 1)))
                           OR ucast (sample ! (2 * elem_offset))))
            else Inl (Fatal ''load outside of sample''))
      else (if elem_offset < length sample then Inr (I32 (sample ! elem_offset))
            else Inl (Fatal ''load outside of sample'')))"

type_synonym ('i, 'f) RngElementGenerator =
  "'i word Index \<Rightarrow> sample_storage \<Rightarrow> 'f Value StatusOr \<times> sample_storage"

definition PhiloxRngElementGenerator ::
  "'f IRBuilder \<Rightarrow> HloInstruction \<Rightarrow> ('i::len, 'f) HloToElementGeneratorMap \<Rightarrow> 64 word \<Rightarrow> 64 word
     \<Rightarrow> int \<Rightarrow> 64 word \<Rightarrow> ('i, 'f) RngElementGenerator"
  where
  "PhiloxRngElementGenerator b hlo operand_to_generator hlo_random_value global_random_number
       elems_per_sample rng_state index sample =
     (case
        TF_ASSIGN_OR_RETURN
          (case linear index of
             Some elem_idx \<Rightarrow> Inr elem_idx
           | None \<Rightarrow> Linearize (dimensions (shape hlo)) index)
          (\<lambda>elem_idx.
        let elems_per_sample_value = index_typed_const elems_per_sample in
        TF_ASSIGN_OR_RETURN (undefined_instruction (CreateUDiv elem_idx elems_per_sample_value))
          (\<lambda>sample_idx.
        TF_ASSIGN_OR_RETURN (undefined_instruction (CreateURem elem_idx elems_per_sample_value))
          (\<lambda>elem_offset.
        TF_ASSIGN_OR_RETURN
          (CalculateSampleValues sample_idx hlo_random_value global_random_number rng_state)
          (\<lambda>counter_values. Inr (elem_offset, counter_values)))))
      of
        Inl status \<Rightarrow> (Inl status, sample)
      | Inr (elem_offset, counter_values) \<Rightarrow>
          (let sample = store_counter_values counter_values sample in
           if \<not> (elems_per_sample = 2 \<or> elems_per_sample = 4)
           then (Inl (Fatal ''CHECK(elems_per_sample == 2 || elems_per_sample == 4)''), sample)
           else
             (TF_ASSIGN_OR_RETURN (load_raw_elem_value elems_per_sample sample (unat elem_offset))
                (\<lambda>raw_elem_value.
                   ConvertValueForDistribution b hlo operand_to_generator index raw_elem_value),
              sample)))"

text \<open>
  The element as a function of the coordinate, the module random number, the global
  seed and the value of the state variable alone, as the specification describes it:
  the linear position of the coordinate is divided by the number of elements of a
  sample, the 10-round Philox-4x32 computation gives the four words of the sample with
  the quotient as its index, and the word (or, for 64-bit elements, the pair of words)
  at the remainder is converted for the distribution. No storage takes part.
\<close>

definition philox_element ::
  "'f IRBuilder \<Rightarrow> HloInstruction \<Rightarrow> ('i::len, 'f) HloToElementGeneratorMap \<Rightarrow> 64 word \<Rightarrow> 64 word
     \<Rightarrow> 64 word \<Rightarrow> 'i word Index \<Rightarrow> 'f Value StatusOr"
  where
  "philox_element b hlo operand_to_generator module_random_number global_seed_value state_value
       index =
     TF_ASSIGN_OR_RETURN (GetNumberOfElementsPerPhiloxRngSample (element_type (shape hlo)))
       (\<lambda>elements_per_sample.
     TF_ASSIGN_OR_RETURN
       (case linear index of
          Some position \<Rightarrow> Inr position
        | None \<Rightarrow> Linearize (dimensions (shape hlo)) index)
       (\<lambda>position.
     TF_ASSIGN_OR_RETURN
       (undefined_instruction (CreateUDiv position (index_typed_const elements_per_sample)))
       (\<lambda>sample_index.
     TF_ASSIGN_OR_RETURN
       (undefined_instruction (CreateURem position (index_typed_const elements_per_sample)))
       (\<lambda>offset.
     TF_ASSIGN_OR_RETURN
       (CalculateSampleValues sample_index module_random_number global_seed_value state_value)
       (\<lambda>words.
     TF_ASSIGN_OR_RETURN (load_raw_elem_value elements_per_sample words (unat offset))
       (\<lambda>raw_value.
          ConvertValueForDistribution b hlo operand_to_generator index raw_value))))))"

definition MakePhiloxRngElementGenerator ::
  "'f IRBuilder \<Rightarrow> RngContext \<Rightarrow> HloInstruction \<Rightarrow> ('i::len, 'f) HloToElementGeneratorMap
     \<Rightarrow> ('i, 'f) RngElementGenerator StatusOr"
  where
  "MakePhiloxRngElementGenerator b ctx hlo operand_to_generator =
     (if IsFused hlo then Inl (Fatal ''CHECK(!hlo->IsFused())'')
      else
        let hlo_random_value = RandomNew64 ctx;
            global_random_number =
              (if seed ctx \<noteq> 0 then seed ctx else GlobalRandomValue ctx)
        in
        TF_ASSIGN_OR_RETURN (GetNumberOfElementsPerPhiloxRngSample (element_type (shape hlo)))
          (\<lambda>elems_per_sample.
        let rng_state = rng_state_value ctx in
        Inr (PhiloxRngElementGenerator b hlo operand_to_generator hlo_random_value
               global_random_number elems_per_sample rng_state)))"

section \<open>Dispatch on the opcode (MakeElementGenerator)\<close>





















section \<open>Example instructions\<close>

text \<open>
  Concrete instructions and generators on which the theorems below are instantiated.
  The Pad example is the one of the specification: an operand of shape [3] holding
  [7, 8, 9], padded with low 1, high 1, interior 0 and pad value 0.
\<close>

definition example_shape :: "PrimitiveType \<Rightarrow> int list \<Rightarrow> Shape" where
  "example_shape t extents =
     \<lparr> element_type = t, dimensions = extents, layout = rev (map int [0 ..< length extents]) \<rparr>"

definition example_instruction ::
  "nat \<Rightarrow> HloOpcode \<Rightarrow> Shape \<Rightarrow> HloInstruction list \<Rightarrow> HloInstruction" where
  "example_instruction n opc s ops =
     HloInstruction n opc s ops False False []
       \<lparr> lhs_contracting_dimensions = [], rhs_contracting_dimensions = [] \<rparr>
       RNG_INVALID 0 0 []"

definition example_pad_operand :: HloInstruction where
  "example_pad_operand = example_instruction 1 ''kParameter'' (example_shape S32 [3]) []"

definition example_pad_value :: HloInstruction where
  "example_pad_value = example_instruction 2 ''kConstant'' (example_shape S32 []) []"

definition example_pad :: HloInstruction where
  "example_pad =
     HloInstruction 0 kPad (example_shape S32 [5]) [example_pad_operand, example_pad_value]
       False False
       [\<lparr> edge_padding_low = 1, edge_padding_high = 1, interior_padding = 0 \<rparr>]
       \<lparr> lhs_contracting_dimensions = [], rhs_contracting_dimensions = [] \<rparr>
       RNG_INVALID 0 0 []"

definition example_pad_input :: "(64, unit) ElementGenerator" where
  \<comment> \<open>The vector [7, 8, 9]; outside its three coordinates, an arbitrary value.\<close>
  "example_pad_input index =
     (case multidim index of
        [i] \<Rightarrow> Inr (I32 (if i = 0 then 7 else if i = 1 then 8 else if i = 2 then 9 else 0xBAD))
      | _ \<Rightarrow> Inr (I32 0xBAD))"

definition example_pad_generators :: "(64, unit) HloToElementGeneratorMap" where
  "example_pad_generators =
     [example_pad_operand \<mapsto> example_pad_input,
      example_pad_value \<mapsto> (\<lambda>index. Inr (I32 0))]"

text \<open>A scalar Select whose predicate operand yields the byte 2.\<close>

definition example_select :: HloInstruction where
  "example_select =
     HloInstruction 0 kSelect (example_shape S32 [])
       [example_instruction 1 ''kParameter'' (example_shape PRED []) [],
        example_instruction 2 ''kParameter'' (example_shape S32 []) [],
        example_instruction 3 ''kParameter'' (example_shape S32 []) []]
       True False []
       \<lparr> lhs_contracting_dimensions = [], rhs_contracting_dimensions = [] \<rparr>
       RNG_INVALID 0 0 []"

definition example_select_generators :: "(64, unit) HloToElementGeneratorMap" where
  "example_select_generators =
     [example_instruction 1 ''kParameter'' (example_shape PRED []) [] \<mapsto> (\<lambda>index. Inr (I8 2)),
      example_instruction 2 ''kParameter'' (example_shape S32 []) [] \<mapsto> (\<lambda>index. Inr (I32 7)),
      example_instruction 3 ''kParameter'' (example_shape S32 []) [] \<mapsto> (\<lambda>index. Inr (I32 9))]"

text \<open>
  An idealised target: its floating-point numbers are the real numbers and one NaN,
  its arithmetic is exact and a NaN operand gives a NaN. On inputs where binary
  floating-point arithmetic is exact, it computes what an IEEE target computes.
\<close>

datatype exact_float = NaN | Num real

definition exact_binary :: "(real \<Rightarrow> real \<Rightarrow> real) \<Rightarrow> exact_float \<Rightarrow> exact_float \<Rightarrow> exact_float" where
  "exact_binary f x y = (case (x, y) of (Num a, Num c) \<Rightarrow> Num (f a c) | _ \<Rightarrow> NaN)"

definition exact_relation :: "(real \<Rightarrow> real \<Rightarrow> bool) \<Rightarrow> exact_float \<Rightarrow> exact_float \<Rightarrow> bool" where
  "exact_relation r x y = (case (x, y) of (Num a, Num c) \<Rightarrow> r a c | _ \<Rightarrow> False)"

definition exact_intrinsic :: "Intrinsic \<Rightarrow> exact_float list \<Rightarrow> exact_float" where
  "exact_intrinsic f args =
     (case (f, args) of
        (llvm_exp, [Num a]) \<Rightarrow> Num (exp a)
      | (llvm_log, [Num a]) \<Rightarrow> (if 0 < a then Num (ln a) else NaN)
      | (llvm_sin, [Num a]) \<Rightarrow> Num (sin a)
      | (llvm_cos, [Num a]) \<Rightarrow> Num (cos a)
      | (llvm_fabs, [Num a]) \<Rightarrow> Num \<bar>a\<bar>
      | (llvm_sqrt, [Num a]) \<Rightarrow> (if 0 \<le> a then Num (sqrt a) else NaN)
      | (llvm_floor, [Num a]) \<Rightarrow> Num (of_int \<lfloor>a\<rfloor>)
      | (llvm_ceil, [Num a]) \<Rightarrow> Num (of_int \<lceil>a\<rceil>)
      | (llvm_round, [Num a]) \<Rightarrow> Num (sgn a * of_int \<lfloor>\<bar>a\<bar> + 1 / 2\<rfloor>)
      | (llvm_pow, [Num a, Num c]) \<Rightarrow> (if 0 < a then Num (a powr c) else NaN)
      | _ \<Rightarrow> NaN)"

definition exact_target :: "exact_float IRBuilder" where
  "exact_target =
     \<lparr> is_nan = (\<lambda>x. x = NaN),
       ordered_less = exact_relation (<),
       ordered_equal = exact_relation (=),
       CreateFAdd = exact_binary (+),
       CreateFSub = exact_binary (-),
       CreateFMul = exact_binary (*),
       CreateFDiv = (\<lambda>x y. if y = Num 0 then NaN else exact_binary (/) x y),
       CreateFRem = (\<lambda>x y. if y = Num 0 then NaN
                             else exact_binary (\<lambda>a c. a - c * (sgn (a / c) * of_int \<lfloor>\<bar>a / c\<bar>\<rfloor>)) x y),
       CreateFNeg = (\<lambda>x. case x of Num a \<Rightarrow> Num (- a) | NaN \<Rightarrow> NaN),
       EmitCallToIntrinsic = exact_intrinsic,
       ConstantFP = (\<lambda>t r. Num r),
       llvm_ir_EmitFloatMax = (\<lambda>x y. if x = NaN \<or> y = NaN then NaN else exact_binary max x y),
       llvm_ir_EmitFloatMin = (\<lambda>x y. if x = NaN \<or> y = NaN then NaN else exact_binary min x y),
       CreateUIToFP = (\<lambda>t n. Num (of_int n)),
       CreateFPTrunc = (\<lambda>t x. x) \<rparr>"

text \<open>
  The Dot example of the specification: operands of shape [2, 3] and [3, 4], contracting
  dimension 1 of the left one with dimension 0 of the right one.
\<close>

definition example_dot_lhs :: HloInstruction where
  "example_dot_lhs = example_instruction 1 ''kParameter'' (example_shape S32 [2, 3]) []"

definition example_dot_rhs :: HloInstruction where
  "example_dot_rhs = example_instruction 2 ''kParameter'' (example_shape S32 [3, 4]) []"

definition example_dot :: HloInstruction where
  "example_dot =
     HloInstruction 0 kDot (example_shape S32 [2, 4]) [example_dot_lhs, example_dot_rhs]
       False False []
       \<lparr> lhs_contracting_dimensions = [1], rhs_contracting_dimensions = [0] \<rparr>
       RNG_INVALID 0 0 []"

definition example_matrix :: "64 word \<Rightarrow> (64, exact_float) ElementGenerator" where
  \<comment> \<open>The row-major matrix with the given number of columns holding 1, 2, 3, ...\<close>
  "example_matrix columns index =
     (case multidim index of
        [i, j] \<Rightarrow> Inr (I32 (ucast (columns * i + j + 1)))
      | _ \<Rightarrow> Inl (InvalidArgument ''rank''))"

definition example_dot_generators :: "(64, exact_float) HloToElementGeneratorMap" where
  "example_dot_generators =
     [example_dot_lhs \<mapsto> example_matrix 3, example_dot_rhs \<mapsto> example_matrix 4]"

text \<open>
  The Dot of the vectors [1, 2, 3] and [4, 5, 6], whose result is a scalar.
\<close>

definition example_vector :: "64 word \<Rightarrow> (64, exact_float) ElementGenerator" where
  \<comment> \<open>The vector holding \<open>first\<close>, \<open>first + 1\<close>, \<open>first + 2\<close>, ...\<close>
  "example_vector first index =
     (case multidim index of
        [t] \<Rightarrow> Inr (I32 (ucast (first + t)))
      | _ \<Rightarrow> Inl (InvalidArgument ''rank''))"

definition example_vector_dot_lhs :: HloInstruction where
  "example_vector_dot_lhs = example_instruction 1 ''kParameter'' (example_shape S32 [3]) []"

definition example_vector_dot_rhs :: HloInstruction where
  "example_vector_dot_rhs = example_instruction 2 ''kParameter'' (example_shape S32 [3]) []"

definition example_vector_dot :: HloInstruction where
  "example_vector_dot =
     HloInstruction 0 kDot (example_shape S32 []) [example_vector_dot_lhs, example_vector_dot_rhs]
       False False []
       \<lparr> lhs_contracting_dimensions = [0], rhs_contracting_dimensions = [0] \<rparr>
       RNG_INVALID 0 0 []"

definition example_vector_dot_generators :: "(64, exact_float) HloToElementGeneratorMap" where
  "example_vector_dot_generators =
     [example_vector_dot_lhs \<mapsto> example_vector 1, example_vector_dot_rhs \<mapsto> example_vector 4]"

text \<open>
  A random-number instruction of shape [2, 4] with 32-bit unsigned elements, uniform
  between the constants 10 and 110, and a context whose module random number is fixed.
\<close>

definition example_rng :: HloInstruction where
  "example_rng =
     HloInstruction 0 kRng (example_shape U32 [2, 4])
       [example_instruction 1 ''kConstant'' (example_shape U32 []) [],
        example_instruction 2 ''kConstant'' (example_shape U32 []) []]
       False False []
       \<lparr> lhs_contracting_dimensions = [], rhs_contracting_dimensions = [] \<rparr>
       RNG_UNIFORM 0 0 []"

definition example_rng_generators :: "(64, exact_float) HloToElementGeneratorMap" where
  "example_rng_generators =
     [example_instruction 1 ''kConstant'' (example_shape U32 []) [] \<mapsto> (\<lambda>index. Inr (I32 10)),
      example_instruction 2 ''kConstant'' (example_shape U32 []) [] \<mapsto> (\<lambda>index. Inr (I32 110))]"

definition example_rng_context :: "64 word \<Rightarrow> 64 word \<Rightarrow> 64 word \<Rightarrow> RngContext" where
  "example_rng_context configured global state =
     \<lparr> RandomNew64 = 0x299f31d0a4093822, seed = configured, GlobalRandomValue = global,
       rng_state_value = state \<rparr>"





section \<open>Properties of integer divide and remainder\<close>

lemma GetMinusOne_unat: "unat (GetMinusOne :: 'a::len word) = 2 ^ LENGTH('a) - 1"
  by (simp add: GetMinusOne_def unsigned_minus_1_eq_mask mask_eq_exp_minus_1)

lemma GetMinusOne_sint: "sint (GetMinusOne :: 'a::len word) = - 1"
  by (simp add: GetMinusOne_def)

lemma GetIntSMin_sint: "sint (GetIntSMin :: 'a::len word) = - (2 ^ (LENGTH('a) - 1))"
proof -
  have "(GetIntSMin :: 'a word) = word_of_int (2 ^ (LENGTH('a) - 1))"
    by (simp add: GetIntSMin_def)
  then have "sint (GetIntSMin :: 'a word) = signed_take_bit (LENGTH('a) - 1) (2 ^ (LENGTH('a) - 1))"
    using sint_sbintrunc' by metis
  also have "\<dots> = - (2 ^ (LENGTH('a) - 1))"
  proof -
    have "(2::int) * 2 ^ (LENGTH('a) - Suc 0) = 2 ^ LENGTH('a)"
      by (metis One_nat_def Suc_pred len_gt_0 power_Suc)
    then show ?thesis
      by (simp add: signed_take_bit_eq_take_bit_shift take_bit_eq_mod)
  qed
  finally show ?thesis .
qed

lemma GetMinusOne_neq_one: "1 < LENGTH('a::len) \<Longrightarrow> (GetMinusOne :: 'a word) \<noteq> 1"
proof
  assume l: "1 < LENGTH('a)" and e: "(GetMinusOne :: 'a word) = 1"
  from e have "unat (GetMinusOne :: 'a word) = 1" by simp
  then have "(2::nat) ^ LENGTH('a) - 1 = 1" by (simp add: GetMinusOne_unat)
  moreover from l have "(2::nat) ^ 2 \<le> 2 ^ LENGTH('a)" by (intro power_increasing) auto
  ultimately show False by simp
qed

lemma GetMinusOne_neq_zero: "(GetMinusOne :: 'a::len word) \<noteq> 0"
  by (simp add: GetMinusOne_def)

lemma GetIntSMin_neq_zero: "(GetIntSMin :: 'a::len word) \<noteq> 0"
  by (simp add: GetIntSMin_def)

lemmas divide_defs =
  EmitIntegerDivide_def EmitIntegerRemainder_def safe_rhs_def sdiv_is_unsafe_def
  udiv_is_unsafe_def IsIntMinDivisionOverflow_def IsZero_def Select_def
  CreateUDiv_def CreateURem_def CreateSDiv_def CreateSRem_def GetOne_def GetZero_def

text \<open>
  Claim C1. For an unsigned dividend \<open>x\<close>, the Divide emitter returns the all-ones value
  (the type maximum \<open>2 ^ n - 1\<close>) when the divisor is 0 and the Remainder emitter returns
  \<open>x\<close>; for signed operands, \<open>INT_MIN / -1\<close> is \<open>INT_MIN\<close> and \<open>INT_MIN % -1\<close> is 0.
  XLA's signed integer types have 8, 16, 32 or 64 bits; the statement needs only that
  the type has more than one bit.
\<close>

theorem divide_remainder_overflow_policy:
  fixes x :: "'a::len word"
  assumes "1 < LENGTH('a)"
  shows "EmitIntegerDivide x 0 False = Some GetMinusOne
       \<and> unat (GetMinusOne :: 'a word) = 2 ^ LENGTH('a) - 1
       \<and> EmitIntegerRemainder x 0 False = Some x
       \<and> EmitIntegerDivide (GetIntSMin :: 'a word) GetMinusOne True = Some GetIntSMin
       \<and> EmitIntegerRemainder (GetIntSMin :: 'a word) GetMinusOne True = Some 0
       \<and> sint (GetIntSMin :: 'a word) = - (2 ^ (LENGTH('a) - 1))
       \<and> sint (GetMinusOne :: 'a word) = - 1"
proof -
  have "EmitIntegerDivide x 0 False = Some GetMinusOne"
    by (simp add: divide_defs)
  moreover have "EmitIntegerRemainder x 0 False = Some x"
    by (simp add: divide_defs)
  moreover have "EmitIntegerDivide (GetIntSMin :: 'a word) GetMinusOne True = Some GetIntSMin"
    using assms by (simp add: divide_defs GetMinusOne_neq_zero GetMinusOne_neq_one)
  moreover have "EmitIntegerRemainder (GetIntSMin :: 'a word) GetMinusOne True = Some 0"
    using assms by (simp add: divide_defs GetMinusOne_neq_zero GetMinusOne_neq_one)
  ultimately show ?thesis
    by (simp add: GetMinusOne_unat GetIntSMin_sint GetMinusOne_sint)
qed

theorem divide_remainder_overflow_policy_witness:
  "EmitIntegerDivide (5 :: 32 word) 0 False = Some 0xFFFFFFFF
 \<and> EmitIntegerRemainder (5 :: 32 word) 0 False = Some 5
 \<and> EmitIntegerDivide (0x80000000 :: 32 word) 0xFFFFFFFF True = Some 0x80000000
 \<and> EmitIntegerRemainder (0x80000000 :: 32 word) 0xFFFFFFFF True = Some 0"
proof -
  have all_ones: "(0xFFFFFFFF :: 32 word) = - 1"
    by simp
  show ?thesis
    unfolding all_ones
    using divide_remainder_overflow_policy [of "5 :: 32 word"]
    by (simp add: GetMinusOne_def GetIntSMin_def)
qed

text \<open>
  Claim C9. For a signed dividend \<open>x\<close>, division by zero returns \<open>-1\<close> (all ones) and
  remainder by zero returns \<open>x\<close>. On every path, signed or unsigned, the divisor handed
  to the division instruction is 1 when the original operands are unsafe and the
  original divisor otherwise, and the instruction is never reached with operands on
  which it is undefined: both emitters always produce a value.
\<close>

theorem signed_divide_by_zero_and_no_trap:
  fixes x lhs rhs :: "'a::len word"
  assumes "1 < LENGTH('a)"
  shows "EmitIntegerDivide x 0 True = Some GetMinusOne
       \<and> EmitIntegerRemainder x 0 True = Some x
       \<and> safe_rhs False lhs rhs = (if rhs = 0 then 1 else rhs)
       \<and> safe_rhs True lhs rhs =
           (if rhs = 0 \<or> (lhs = GetIntSMin \<and> rhs = GetMinusOne) then 1 else rhs)
       \<and> CreateUDiv lhs (safe_rhs False lhs rhs) \<noteq> None
       \<and> CreateURem lhs (safe_rhs False lhs rhs) \<noteq> None
       \<and> CreateSDiv lhs (safe_rhs True lhs rhs) \<noteq> None
       \<and> CreateSRem lhs (safe_rhs True lhs rhs) \<noteq> None
       \<and> EmitIntegerDivide lhs rhs is_signed \<noteq> None
       \<and> EmitIntegerRemainder lhs rhs is_signed \<noteq> None"
proof -
  note ne = GetMinusOne_neq_one [OF assms]
  have "EmitIntegerDivide x 0 True = Some GetMinusOne"
    using ne by (simp add: divide_defs)
  moreover have "EmitIntegerRemainder x 0 True = Some x"
    using ne by (simp add: divide_defs)
  moreover have "safe_rhs False lhs rhs = (if rhs = 0 then 1 else rhs)"
    by (simp add: divide_defs)
  moreover have "safe_rhs True lhs rhs =
      (if rhs = 0 \<or> (lhs = GetIntSMin \<and> rhs = GetMinusOne) then 1 else rhs)"
    by (auto simp add: divide_defs)
  moreover have "CreateUDiv lhs (safe_rhs False lhs rhs) \<noteq> None"
    by (simp add: divide_defs)
  moreover have "CreateURem lhs (safe_rhs False lhs rhs) \<noteq> None"
    by (simp add: divide_defs)
  moreover have "CreateSDiv lhs (safe_rhs True lhs rhs) \<noteq> None"
    using ne by (simp add: divide_defs)
  moreover have "CreateSRem lhs (safe_rhs True lhs rhs) \<noteq> None"
    using ne by (simp add: divide_defs)
  moreover have "EmitIntegerDivide lhs rhs is_signed \<noteq> None"
    using ne by (simp add: divide_defs)
  moreover have "EmitIntegerRemainder lhs rhs is_signed \<noteq> None"
    using ne by (simp add: divide_defs)
  ultimately show ?thesis by blast
qed

theorem signed_divide_by_zero_and_no_trap_witness:
  "EmitIntegerDivide (- 7 :: 32 word) 0 True = Some 0xFFFFFFFF
 \<and> EmitIntegerRemainder (- 7 :: 32 word) 0 True = Some (- 7)
 \<and> safe_rhs True (0x80000000 :: 32 word) 0xFFFFFFFF = 1
 \<and> EmitIntegerDivide (0x80000000 :: 32 word) 0xFFFFFFFF True \<noteq> None
 \<and> EmitIntegerRemainder (- 7 :: 32 word) 2 True \<noteq> None"
proof -
  have all_ones: "(0xFFFFFFFF :: 32 word) = - 1"
    by simp
  show ?thesis
    unfolding all_ones
    using signed_divide_by_zero_and_no_trap [of "- 7 :: 32 word" "0x80000000" "- 1" True]
      signed_divide_by_zero_and_no_trap [of "- 7 :: 32 word" "- 7" "2" True]
    by (simp add: GetMinusOne_def GetIntSMin_def)
qed

section \<open>Properties of precision reduction\<close>



lemma add_low_bits_truncate:
  fixes y b :: "'a::len word"
  assumes y: "take_bit k y = 0" and b: "take_bit k b = b"
  shows "(y + b) AND NOT (mask k) = y"
proof -
  have by_bits: "\<not> (bit y n \<and> bit b n)" and y_low: "n < k \<Longrightarrow> \<not> bit y n"
    and b_high: "bit b n \<Longrightarrow> n < k" for n
  proof -
    have "bit (take_bit k y) n = (n < k \<and> bit y n)"
      by (simp add: bit_take_bit_iff)
    with y show yl: "n < k \<Longrightarrow> \<not> bit y n" by simp
    have "bit (take_bit k b) n = (n < k \<and> bit b n)"
      by (simp add: bit_take_bit_iff)
    with b show bh: "bit b n \<Longrightarrow> n < k" by simp
    from yl bh show "\<not> (bit y n \<and> bit b n)" by blast
  qed
  have "y AND b = 0"
    by (rule bit_word_eqI) (use by_bits in \<open>auto simp: bit_and_iff\<close>)
  then have "y + b = y OR b"
    by (rule disjunctive_add_eq_or)
  moreover have "(y OR b) AND NOT (mask k) = y"
    by (rule bit_word_eqI) (use y_low b_high in \<open>auto simp: bit_simps\<close>)
  ultimately show ?thesis by simp
qed

lemma last_bit_of_bool:
  fixes y :: "'a::len word"
  shows "drop_bit k (y AND push_bit k 1) = of_bool (bit y k)"
  by (rule bit_word_eqI) (auto simp: bit_simps dest: bit_imp_le_length)

lemma half_mask: 
  assumes "1 \<le> k" "k < 32"
  shows "drop_bit 1 (push_bit k 1 :: 32 word) - 1 = mask (k - 1)"
proof -
  have "drop_bit 1 (push_bit k 1 :: 32 word) = push_bit (k - 1) 1"
    using assms by (intro bit_word_eqI) (auto simp: bit_simps)
  then show ?thesis by (simp add: mask_eq_exp_minus_1)
qed

lemma bias_small:
  assumes "1 \<le> k" "k < 32"
  shows "take_bit k (of_bool c + mask (k - 1) :: 32 word) = of_bool c + mask (k - 1)"
proof (cases c)
  case True
  have "(1 + mask (k - 1) :: 32 word) = push_bit (k - 1) 1"
    by (simp add: mask_eq_exp_minus_1)
  moreover have "take_bit k (push_bit (k - 1) 1 :: 32 word) = push_bit (k - 1) 1"
    using assms by (intro bit_word_eqI) (auto simp: bit_simps)
  ultimately show ?thesis using True by simp
next
  case False
  have "take_bit k (mask (k - 1) :: 32 word) = mask (k - 1)"
    using assms by (intro bit_word_eqI) (auto simp: bit_simps)
  then show ?thesis using False by simp
qed

lemma round_mantissa_eq:
  assumes "0 \<le> m" "m < 23"
  shows "round_mantissa x m =
    (x + (of_bool (bit x (nat (23 - m))) + mask (nat (23 - m) - 1))) AND NOT (mask (nat (23 - m)))"
proof -
  have k: "1 \<le> nat (23 - m)" "nat (23 - m) < 32" using assms by auto
  show ?thesis
    unfolding round_mantissa_def Let_def last_bit_of_bool half_mask [OF k]
    by (simp add: mask_eq_exp_minus_1)
qed

lemma round_mantissa_low_bits:
  assumes "0 \<le> m" "m < 23"
  shows "take_bit (nat (23 - m)) (round_mantissa x m) = 0"
  unfolding round_mantissa_eq [OF assms]
  by (rule bit_word_eqI) (auto simp: bit_simps)

lemma round_mantissa_fix:
  assumes "0 \<le> m" "m < 23" and "take_bit (nat (23 - m)) y = 0"
  shows "round_mantissa y m = y"
proof -
  have k: "1 \<le> nat (23 - m)" "nat (23 - m) < 32" using assms by auto
  show ?thesis
    unfolding round_mantissa_eq [OF assms(1,2)]
    by (rule add_low_bits_truncate [OF assms(3) bias_small [OF k]])
qed



lemma sign_exp_disjoint: "(y AND f32_sign_bit_mask) AND f32_exp_bits_mask = 0"
  by (simp add: f32_sign_bit_mask_def f32_exp_bits_mask_def and.assoc)

lemma inf_exp: "((y AND f32_sign_bit_mask) OR f32_exp_bits_mask) AND f32_exp_bits_mask = f32_exp_bits_mask"
  by (simp add: bit.conj_disj_distrib2 sign_exp_disjoint)

lemma inf_sign: "((y AND f32_sign_bit_mask) OR f32_exp_bits_mask) AND f32_sign_bit_mask = y AND f32_sign_bit_mask"
  by (simp add: bit.conj_disj_distrib2 and.assoc) (simp add: f32_sign_bit_mask_def f32_exp_bits_mask_def)

lemma sign_sign: "(y AND f32_sign_bit_mask) AND f32_sign_bit_mask = y AND f32_sign_bit_mask"
  by (simp add: and.assoc)

lemma e_cases: "1 \<le> e \<Longrightarrow> e < 8 \<Longrightarrow> e = 1 \<or> e = 2 \<or> e = 3 \<or> e = 4 \<or> e = 5 \<or> e = 6 \<or> (e::int) = 7"
  by arith

lemma saturate_exponent_cases:
  "saturate_exponent y e = (y AND f32_sign_bit_mask)
 \<or> saturate_exponent y e = ((y AND f32_sign_bit_mask) OR f32_exp_bits_mask)
 \<or> saturate_exponent y e = y"
  by (simp add: saturate_exponent_def Let_def Select_def)

lemma sat_zero:
  assumes "1 \<le> e" "e < 8"
  shows "saturate_exponent (y AND f32_sign_bit_mask) e = y AND f32_sign_bit_mask"
  unfolding saturate_exponent_def Let_def Select_def sign_exp_disjoint sign_sign
  by simp

lemma sat_inf:
  assumes "1 \<le> e" "e < 8"
  shows "saturate_exponent ((y AND f32_sign_bit_mask) OR f32_exp_bits_mask) e = (y AND f32_sign_bit_mask) OR f32_exp_bits_mask"
  unfolding saturate_exponent_def Let_def Select_def inf_exp inf_sign
  using e_cases [OF assms]
  by (elim disjE) (simp_all add: f32_exp_bits_mask_def)

lemma saturate_exponent_idem:
  assumes "1 \<le> e" "e < 8"
  shows "saturate_exponent (saturate_exponent y e) e = saturate_exponent y e"
proof -
  let ?ex = "y AND f32_exp_bits_mask"
  let ?over = "push_bit 23 ((push_bit 7 1 - 1 :: 32 word) + (push_bit (nat (e - 1)) 1 - 1)) < ?ex"
  let ?under = "?ex \<le> push_bit 23 ((push_bit 7 1 - 1 :: 32 word) - (push_bit (nat (e - 1)) 1 - 1))"
  have eq: "saturate_exponent y e = (if ?under then y AND f32_sign_bit_mask else if ?over then (y AND f32_sign_bit_mask) OR f32_exp_bits_mask else y)"
    by (simp add: saturate_exponent_def Let_def Select_def)
  show ?thesis
  proof (cases ?under)
    case True
    then show ?thesis by (simp add: eq [simplified] sat_zero [OF assms])
  next
    case False
    show ?thesis
    proof (cases ?over)
      case True
      with False show ?thesis unfolding eq by (simp add: sat_inf [OF assms])
    next
      case f2: False
      with False have "saturate_exponent y e = y" unfolding eq by simp
      then show ?thesis by simp
    qed
  qed
qed


lemma exp_bits_mask_low_bits: "k \<le> 23 \<Longrightarrow> take_bit k f32_exp_bits_mask = 0"
  unfolding f32_exp_bits_mask_def take_bit_push_bit by simp

lemma saturate_exponent_low_bits:
  assumes "k \<le> 23" and "take_bit k y = 0"
  shows "take_bit k (saturate_exponent y e) = 0"
proof -
  have E: "take_bit k f32_exp_bits_mask = 0"
    using assms(1) by (rule exp_bits_mask_low_bits)
  show ?thesis
    using saturate_exponent_cases [of y e]
    by (elim disjE) (simp_all add: assms(2) E)
qed

lemma not_nan_if_mantissa_zero:
  assumes "take_bit 23 r = 0"
  shows "\<not> f32_is_nan r"
proof -
  have r_eq: "r = r AND NOT (mask 23)"
  proof (rule bit_word_eqI)
    fix n assume n: "n < LENGTH(32)"
    have "bit (take_bit 23 r) n = (n < 23 \<and> bit r n)"
      by (simp add: bit_take_bit_iff)
    with assms have "n < 23 \<Longrightarrow> \<not> bit r n" by simp
    then show "bit r n \<longleftrightarrow> bit (r AND NOT (mask 23)) n"
      using n by (auto simp: bit_simps)
  qed
  have msk: "NOT (mask 23) AND NOT f32_sign_bit_mask = f32_exp_bits_mask"
    by (simp add: f32_sign_bit_mask_def f32_exp_bits_mask_def mask_eq_exp_minus_1)
  have "r AND NOT f32_sign_bit_mask = (r AND NOT (mask 23)) AND NOT f32_sign_bit_mask"
    using r_eq by simp
  also have "\<dots> = r AND f32_exp_bits_mask"
    by (simp only: and.assoc msk)
  finally have "r AND NOT f32_sign_bit_mask \<le> f32_exp_bits_mask"
    by (simp add: word_and_le1)
  then show ?thesis
    by (simp add: f32_is_nan_def not_less)
qed

lemma reduced_bit_pattern_low_bits:
  assumes "0 \<le> m" "m < 23"
  shows "take_bit (nat (23 - m)) (reduced_bit_pattern x e m) = 0"
proof -
  have k: "nat (23 - m) \<le> 23" using assms by simp
  show ?thesis
    using assms(2) round_mantissa_low_bits [OF assms]
    by (simp add: reduced_bit_pattern_def Let_def saturate_exponent_low_bits [OF k])
qed

lemma reduced_bit_pattern_idem:
  assumes "1 \<le> e" "0 \<le> m"
  shows "reduced_bit_pattern (reduced_bit_pattern x e m) e m = reduced_bit_pattern x e m"
proof (cases "m < 23")
  case True
  have r: "round_mantissa (reduced_bit_pattern x e m) m = reduced_bit_pattern x e m"
    by (rule round_mantissa_fix [OF assms(2) True reduced_bit_pattern_low_bits [OF assms(2) True]])
  show ?thesis
  proof (cases "e < 8")
    case e: True
    have "reduced_bit_pattern (reduced_bit_pattern x e m) e m = saturate_exponent (reduced_bit_pattern x e m) e"
      using True e r by (simp add: reduced_bit_pattern_def Let_def)
    also have "\<dots> = reduced_bit_pattern x e m"
      using True e by (simp add: reduced_bit_pattern_def Let_def saturate_exponent_idem [OF assms(1) e])
    finally show ?thesis .
  next
    case False
    then show ?thesis using True r by (simp add: reduced_bit_pattern_def Let_def)
  qed
next
  case False
  then show ?thesis
    by (cases "e < 8") (simp_all add: reduced_bit_pattern_def Let_def saturate_exponent_idem [OF assms(1)])
qed

lemma reduced_bit_pattern_infinity:
  assumes "1 \<le> e" "0 \<le> m"
  shows "reduced_bit_pattern f32_infinity e m = f32_infinity"
proof -
  have inf_eq: "f32_infinity = ((0 AND f32_sign_bit_mask) OR f32_exp_bits_mask)"
    by (simp add: f32_infinity_def)
  have low: "k \<le> 23 \<Longrightarrow> take_bit k f32_infinity = 0" for k
    by (simp add: f32_infinity_def exp_bits_mask_low_bits)
  have r: "m < 23 \<Longrightarrow> round_mantissa f32_infinity m = f32_infinity"
    using assms(2) by (intro round_mantissa_fix low) auto
  have s: "e < 8 \<Longrightarrow> saturate_exponent f32_infinity e = f32_infinity"
    using sat_inf [OF assms(1), of 0] by (simp add: f32_infinity_def)
  show ?thesis
    by (simp add: reduced_bit_pattern_def Let_def r s)
qed

lemma EmitReducePrecisionFloat_eq: "EmitReducePrecisionFloat x e m noNaNs =
   (if noNaNs then reduced_bit_pattern x e m else if f32_is_nan x then (if 0 < m then x else f32_infinity) else reduced_bit_pattern x e m)"
  by (simp add: EmitReducePrecisionFloat_def reduced_bit_pattern_def Let_def Select_def)

lemma EmitReducePrecisionFloat_idem:
  assumes "1 \<le> e" "0 \<le> m"
  shows "EmitReducePrecisionFloat (EmitReducePrecisionFloat x e m f) e m f = EmitReducePrecisionFloat x e m f"
proof (cases "m = 0")
  case True
  have nn: "\<not> f32_is_nan (reduced_bit_pattern y e m)" for y
    using reduced_bit_pattern_low_bits [of m y e] True by (intro not_nan_if_mantissa_zero) simp
  have ni: "\<not> f32_is_nan f32_infinity"
    by (intro not_nan_if_mantissa_zero) (simp add: f32_infinity_def exp_bits_mask_low_bits)
  show ?thesis
    by (simp add: EmitReducePrecisionFloat_eq reduced_bit_pattern_idem [OF assms] reduced_bit_pattern_infinity [OF assms] nn ni)
next
  case False
  with assms have "0 < m" by simp
  then show ?thesis
    by (simp add: EmitReducePrecisionFloat_eq reduced_bit_pattern_idem [OF assms])
qed


text \<open>
  Claim C4. ReducePrecision is idempotent: for every finite 32-bit float \<open>x\<close> and
  every valid pair of exponent bits \<open>e\<close> and mantissa bits \<open>m\<close> (\<open>1 \<le> e\<close>, \<open>0 \<le> m\<close>), applying the
  precision reduction twice yields the bit pattern of applying it once, whether or not
  the fast-math no-NaNs flag is set. (\<open>EmitReducePrecisionFloat_idem\<close> above shows the
  same for every bit pattern.)
\<close>

theorem reduce_precision_idempotent:
  assumes "f32_is_finite x" and "1 \<le> e" and "0 \<le> m"
  shows "EmitReducePrecisionFloat (EmitReducePrecisionFloat x e m noNaNs) e m noNaNs
       = EmitReducePrecisionFloat x e m noNaNs"
  using assms(2,3) by (rule EmitReducePrecisionFloat_idem)

lemmas reduce_precision_defs =
  EmitReducePrecisionFloat_def reduced_bit_pattern_def round_mantissa_def
  saturate_exponent_def f32_is_nan_def f32_is_finite_def f32_infinity_def
  f32_exp_bits_mask_def f32_sign_bit_mask_def Select_def Let_def

theorem reduce_precision_idempotent_witness:
  "f32_is_finite 0x3F803000
 \<and> EmitReducePrecisionFloat 0x3F803000 5 10 False = 0x3F804000
 \<and> EmitReducePrecisionFloat (EmitReducePrecisionFloat 0x3F803000 5 10 False) 5 10 False
     = 0x3F804000"
proof -
  have fin: "f32_is_finite 0x3F803000"
    by (simp add: reduce_precision_defs)
  have once: "EmitReducePrecisionFloat 0x3F803000 5 10 False = 0x3F804000"
    by (simp add: reduce_precision_defs)
  from reduce_precision_idempotent [OF fin, of 5 10 False] fin once
  show ?thesis by simp
qed


section \<open>Properties of the floating-point emitters\<close>

lemmas exact_defs = exact_target_def exact_binary_def exact_relation_def exact_intrinsic_def

text \<open>
  Claim C3. Every float comparison opcode except not-equal uses an ordered comparison
  and not-equal uses an unordered one; so for a NaN \<open>n\<close> and every float \<open>x\<close>,
  \<open>n \<noteq> n\<close> is true while \<open>n = n\<close>, \<open>n < x\<close> and \<open>n > x\<close> are false.
\<close>

theorem float_comparisons_ordered_except_ne:
  fixes b :: "'f IRBuilder"
  assumes "is_nan b n"
  shows "(opcode op = kEq \<longrightarrow>
            EmitFloatBinaryOp b op (FloatV x) (FloatV y) = Inr (EmitComparison b FCMP_OEQ x y))
       \<and> (opcode op = kNe \<longrightarrow>
            EmitFloatBinaryOp b op (FloatV x) (FloatV y) = Inr (EmitComparison b FCMP_UNE x y))
       \<and> (opcode op = kLt \<longrightarrow>
            EmitFloatBinaryOp b op (FloatV x) (FloatV y) = Inr (EmitComparison b FCMP_OLT x y))
       \<and> (opcode op = kGt \<longrightarrow>
            EmitFloatBinaryOp b op (FloatV x) (FloatV y) = Inr (EmitComparison b FCMP_OGT x y))
       \<and> (opcode op = kLe \<longrightarrow>
            EmitFloatBinaryOp b op (FloatV x) (FloatV y) = Inr (EmitComparison b FCMP_OLE x y))
       \<and> (opcode op = kGe \<longrightarrow>
            EmitFloatBinaryOp b op (FloatV x) (FloatV y) = Inr (EmitComparison b FCMP_OGE x y))
       \<and> is_ordered_predicate FCMP_OEQ \<and> is_ordered_predicate FCMP_OLT
       \<and> is_ordered_predicate FCMP_OGT \<and> is_ordered_predicate FCMP_OLE
       \<and> is_ordered_predicate FCMP_OGE \<and> \<not> is_ordered_predicate FCMP_UNE
       \<and> (opcode op = kNe \<longrightarrow>
            EmitFloatBinaryOp b op (FloatV n) (FloatV n) = Inr (PRED_of_bool True))
       \<and> (opcode op = kEq \<longrightarrow>
            EmitFloatBinaryOp b op (FloatV n) (FloatV n) = Inr (PRED_of_bool False))
       \<and> (opcode op = kLt \<longrightarrow>
            EmitFloatBinaryOp b op (FloatV n) (FloatV x) = Inr (PRED_of_bool False))
       \<and> (opcode op = kGt \<longrightarrow>
            EmitFloatBinaryOp b op (FloatV n) (FloatV x) = Inr (PRED_of_bool False))"
  using assms
  by (simp add: EmitFloatBinaryOp_def float_operands_def EmitComparison_def CreateFCmp_def
      is_ordered_predicate_def)

theorem float_comparisons_ordered_except_ne_witness:
  "EmitFloatBinaryOp exact_target (example_instruction 0 kNe (example_shape PRED []) [])
     (FloatV NaN) (FloatV NaN) = Inr (I8 1)
 \<and> EmitFloatBinaryOp exact_target (example_instruction 0 kEq (example_shape PRED []) [])
     (FloatV NaN) (FloatV NaN) = Inr (I8 0)
 \<and> EmitFloatBinaryOp exact_target (example_instruction 0 kLt (example_shape PRED []) [])
     (FloatV NaN) (FloatV (Num 1)) = Inr (I8 0)
 \<and> EmitFloatBinaryOp exact_target (example_instruction 0 kGt (example_shape PRED []) [])
     (FloatV NaN) (FloatV (Num 1)) = Inr (I8 0)"
proof -
  have nan: "is_nan exact_target NaN"
    by (simp add: exact_target_def)
  note c = float_comparisons_ordered_except_ne [OF nan, of _ "Num 1" "Num 1"]
  from c [of "example_instruction 0 kNe (example_shape PRED []) []"]
    c [of "example_instruction 0 kEq (example_shape PRED []) []"]
    c [of "example_instruction 0 kLt (example_shape PRED []) []"]
    c [of "example_instruction 0 kGt (example_shape PRED []) []"]
  show ?thesis
    by (simp add: example_instruction_def PRED_of_bool_def)
qed

text \<open>
  Claim C2, the direct path and the select: where \<open>|x| < 1e-5\<close> fails (also for a NaN),
  the Expm1 emitter returns \<open>exp(x) - 1\<close>, and the two paths are joined by a select on
  that comparison. On the other path the emitter returns \<open>x + (x + x) * 0.5\<close>.
\<close>

lemma EmitExpm1_paths:
  "EmitExpm1 b prim_type x =
     Inr (if CreateFCmp b FCMP_OLT (EmitCallToIntrinsic b llvm_fabs [x])
               (ConstantFP b prim_type (1 / 10 ^ 5))
          then CreateFAdd b x (CreateFMul b (CreateFAdd b x x) (ConstantFP b prim_type 0.5))
          else CreateFSub b (EmitCallToIntrinsic b llvm_exp [x]) (ConstantFP b prim_type 1))"
  by (simp add: EmitExpm1_def EmitExp_def TF_ASSIGN_OR_RETURN_def Let_def Select_def)

text \<open>
  Claim C2, the small path, at \<open>x = 2 ^ -20\<close> (below the threshold): the emitter
  returns \<open>2 ^ -19\<close>, which is \<open>2 * x\<close> and not the two-term Taylor expansion
  \<open>x + x\<^sup>2 / 2\<close>. Every operation on this path is exact in binary32 and binary64 at
  this input, so the idealised target computes what an IEEE target does.
\<close>

theorem expm1_small_path_at_two_to_minus_20:
  "EmitExpm1 exact_target F32 (Num (1 / 2 ^ 20)) = Inr (Num (1 / 2 ^ 19))
 \<and> (1 / 2 ^ 19 :: real) \<noteq> 1 / 2 ^ 20 + (1 / 2 ^ 20)\<^sup>2 / 2"
  by (simp add: EmitExpm1_paths CreateFCmp_def exact_defs power2_eq_square)

section \<open>Properties of Select\<close>

text \<open>
  Claim C10. The Select emitter chooses between the values of the true operand and the
  false operand by the lowest bit of the predicate byte alone: the predicate is
  truncated to one bit before the select, so an even predicate byte that is not zero
  (such as 2, in the instance below) selects the value of the false operand.
\<close>

theorem select_by_lowest_predicate_bit:
  assumes "at_operand operand_to_generator hlo 0 = Inr generator0"
    and "ElementwiseSourceIndex index hlo 0 = Inr index0"
    and "generator0 index0 = Inr (I8 p)"
    and "at_operand operand_to_generator hlo 1 = Inr generator1"
    and "ElementwiseSourceIndex index hlo 1 = Inr index1"
    and "generator1 index1 = Inr on_true_value"
    and "at_operand operand_to_generator hlo 2 = Inr generator2"
    and "ElementwiseSourceIndex index hlo 2 = Inr index2"
    and "generator2 index2 = Inr on_false_value"
  shows "EmitElementalSelect hlo operand_to_generator index
       = Inr (if bit p 0 then on_true_value else on_false_value)"
  using assms
  by (simp add: EmitElementalSelect_def TF_ASSIGN_OR_RETURN_def CreateTrunc_i1_def Select_def)

theorem select_by_lowest_predicate_bit_witness:
  "EmitElementalSelect example_select example_select_generators (Index [] None) = Inr (I32 9)"
proof -
  have g: "at_operand example_select_generators example_select 0 = Inr (\<lambda>index. Inr (I8 2))"
    "at_operand example_select_generators example_select 1 = Inr (\<lambda>index. Inr (I32 7))"
    "at_operand example_select_generators example_select 2 = Inr (\<lambda>index. Inr (I32 9))"
    by (simp_all add: at_operand_def operand_def TF_ASSIGN_OR_RETURN_def example_select_def
        example_select_generators_def example_instruction_def example_shape_def)
  have i: "ElementwiseSourceIndex (Index [] None :: 64 word Index) example_select 0 = Inr empty_Index"
    "ElementwiseSourceIndex (Index [] None :: 64 word Index) example_select 1 = Inr empty_Index"
    "ElementwiseSourceIndex (Index [] None :: 64 word Index) example_select 2 = Inr empty_Index"
    by (simp_all add: ElementwiseSourceIndex_def operand_def TF_ASSIGN_OR_RETURN_def IsScalar_def
        Rank_def example_select_def example_instruction_def example_shape_def)
  have v: "(\<lambda>index :: 64 word Index. Inr (I8 2) :: unit Value StatusOr) empty_Index = Inr (I8 2)"
    "(\<lambda>index :: 64 word Index. Inr (I32 7) :: unit Value StatusOr) empty_Index = Inr (I32 7)"
    "(\<lambda>index :: 64 word Index. Inr (I32 9) :: unit Value StatusOr) empty_Index = Inr (I32 9)"
    by simp_all
  from select_by_lowest_predicate_bit
    [OF g(1) i(1) v(1) g(2) i(2) v(2) g(3) i(3) v(3)]
  show ?thesis by simp
qed

section \<open>Properties of Pad\<close>

lemma half_range_less: "(2::int) ^ (LENGTH('a::len) - 1) < 2 ^ LENGTH('a)"
  by (rule power_strict_increasing) auto

lemma sint_word_of_int_in_range:
  assumes "- (2 ^ (LENGTH('a::len) - 1)) \<le> k" "k < 2 ^ (LENGTH('a) - 1)"
  shows "sint (word_of_int k :: 'a word) = k"
  using assms by (simp add: sint_sbintrunc' signed_take_bit_int_eq_self)

lemma uint_eq_sint_nonneg:
  fixes p :: "'a::len word"
  assumes "0 \<le> sint p"
  shows "uint p = sint p"
proof -
  have "sint p < 2 ^ LENGTH('a)"
    using sint_lt [of p] half_range_less [where 'a='a] by linarith
  then have "take_bit LENGTH('a) (sint p) = sint p"
    using assms by (simp add: take_bit_int_eq_self)
  then show ?thesis by (simp add: uint_sint)
qed

lemma positive_const:
  assumes "0 < k" "k < 2 ^ (LENGTH('a::len) - 1)"
  shows "sint (word_of_int k :: 'a word) = k"
    and "(word_of_int k :: 'a word) \<noteq> 0"
    and "(word_of_int k :: 'a word) \<noteq> GetMinusOne"
    and "uint (word_of_int k :: 'a word) = k"
proof -
  show s: "sint (word_of_int k :: 'a word) = k"
    using assms by (intro sint_word_of_int_in_range) auto
  show "(word_of_int k :: 'a word) \<noteq> 0"
  proof
    assume "(word_of_int k :: 'a word) = 0"
    then have "sint (word_of_int k :: 'a word) = 0" by simp
    with s assms(1) show False by simp
  qed
  show "(word_of_int k :: 'a word) \<noteq> GetMinusOne"
  proof
    assume "(word_of_int k :: 'a word) = GetMinusOne"
    then have "sint (word_of_int k :: 'a word) = - 1" by (simp add: GetMinusOne_sint)
    with s assms(1) show False by simp
  qed
  have "0 \<le> sint (word_of_int k :: 'a word)" using s assms(1) by simp
  from uint_eq_sint_nonneg [OF this] s show "uint (word_of_int k :: 'a word) = k" by simp
qed

lemma urem_zero_iff:
  fixes p :: "'a::len word"
  assumes "0 \<le> sint p" "0 < k" "k < 2 ^ (LENGTH('a) - 1)"
  shows "(0 = p mod word_of_int k) \<longleftrightarrow> sint p mod k = 0"
proof -
  have "(0 = p mod word_of_int k) \<longleftrightarrow> uint (p mod (word_of_int k :: 'a word)) = 0"
    by (auto simp: uint_0_iff)
  also have "\<dots> \<longleftrightarrow> uint p mod uint (word_of_int k :: 'a word) = 0"
    by (simp add: uint_mod_distrib)
  also have "\<dots> \<longleftrightarrow> sint p mod k = 0"
    by (simp add: uint_eq_sint_nonneg [OF assms(1)] positive_const(4) [OF assms(2,3)])
  finally show ?thesis .
qed

lemma sdiv_nonneg:
  fixes p :: "'a::len word"
  assumes "0 \<le> sint p" "0 < k" "k < 2 ^ (LENGTH('a) - 1)"
  shows "sint p sdiv k = sint p div k"
    and "sint (word_of_int (sint p sdiv k) :: 'a word) = sint p div k"
proof -
  show e: "sint p sdiv k = sint p div k"
    using assms(1,2) by (simp add: signed_divide_int_def sgn_if)
  have "0 \<le> sint p div k" using assms(1,2) by (simp add: pos_imp_zdiv_nonneg_iff)
  moreover have "sint p div k \<le> sint p"
    using zdiv_mono2 [of "sint p" 1 k] assms(1,2) by simp
  moreover have "sint p < 2 ^ (LENGTH('a) - 1)" by (rule sint_lt)
  ultimately show "sint (word_of_int (sint p sdiv k) :: 'a word) = sint p div k"
    unfolding e by (intro sint_word_of_int_in_range) auto
qed

lemma EmitElementalPad_body_eq:
  fixes padded_index :: "'i::len word Index"
  assumes op0: "operand hlo 0 = Inr operand0"
    and wf: "pad_well_formed hlo (dimensions (shape operand0)) padded_index"
    and i: "i < length (multidim padded_index)"
    and xs: "xs ! i = multidim padded_index ! i"
  shows "EmitElementalPad_body hlo i (Index xs lin, b)
       = Inr (Index (xs[i := multidim (pad_operand_index hlo padded_index) ! i]) lin,
              b \<and> pad_in_bounds hlo (dimensions (shape operand0)) padded_index i)"
proof -
  define k where "k = interior_padding (padding_config hlo ! i) + 1"
  define ext where "ext = dimensions (shape operand0) ! i"
  define p :: "'i word" where
    "p = multidim padded_index ! i - index_typed_const (edge_padding_low (padding_config hlo ! i))"
  define q :: "'i word" where "q = word_of_int (sint p sdiv k)"
  have len: "i < length (padding_config hlo)" "i < length (dimensions (shape operand0))"
    using wf i by (simp_all add: pad_well_formed_def)
  have k: "0 < k" "k < 2 ^ (LENGTH('i) - 1)"
    using wf len by (auto simp: pad_well_formed_def list_all_length k_def)
  have ext: "- (2 ^ (LENGTH('i) - 1)) \<le> ext" "ext < 2 ^ (LENGTH('i) - 1)"
    using wf len by (auto simp: pad_well_formed_def list_all_length ext_def intro: order_trans [of _ 0])
  note c = positive_const [OF k]
  have pre: "pad_pre hlo padded_index i = sint p"
    by (simp add: pad_pre_def p_def)
  have coord: "multidim (pad_operand_index hlo padded_index) ! i = q"
    using i by (simp add: pad_operand_index_def pre q_def k_def)
  have urem: "CreateURem p (index_typed_const k) = Some (p mod word_of_int k)"
    using c(2) by (simp add: CreateURem_def index_typed_const_def)
  have sdiv: "CreateSDiv p (index_typed_const k) = Some q"
    using c(1,2,3) by (simp add: CreateSDiv_def index_typed_const_def q_def)
  have c0: "CreateICmpSGE p (index_typed_const 0) \<longleftrightarrow> 0 \<le> sint p"
    by (simp add: CreateICmpSGE_def index_typed_const_def)
  have c1: "(index_typed_const 0 = p mod word_of_int k) \<longleftrightarrow> sint p mod k = 0" if "0 \<le> sint p"
    using urem_zero_iff [OF that k] by (simp add: index_typed_const_def)
  have c2: "CreateICmpSLT q (index_typed_const ext) \<longleftrightarrow> sint p div k < ext" if "0 \<le> sint p"
    unfolding CreateICmpSLT_def index_typed_const_def q_def
    by (simp only: sdiv_nonneg(2) [OF that k] sint_word_of_int_in_range [OF ext])
  have spec: "pad_in_bounds hlo (dimensions (shape operand0)) padded_index i
      \<longleftrightarrow> 0 \<le> sint p \<and> sint p mod k = 0 \<and> sint p div k < ext"
    by (simp add: pad_in_bounds_def Let_def pre k_def ext_def)
  have conds: "(b \<and> CreateICmpSGE p (index_typed_const 0)
              \<and> (index_typed_const 0 :: 'i word) = p mod word_of_int k
              \<and> CreateICmpSLT q (index_typed_const ext))
           \<longleftrightarrow> (b \<and> pad_in_bounds hlo (dimensions (shape operand0)) padded_index i)"
  proof (cases "0 \<le> sint p")
    case True
    then show ?thesis by (simp only: c0 c1 [OF True] c2 [OF True] spec)
  next
    case False
    then show ?thesis by (simp only: c0 spec) simp
  qed
  have "EmitElementalPad_body hlo i (Index xs lin, b)
      = Inr (Index (xs[i := q]) lin,
             ((b \<and> CreateICmpSGE p (index_typed_const 0))
              \<and> (index_typed_const 0 :: 'i word) = p mod word_of_int k)
              \<and> CreateICmpSLT q (index_typed_const ext))"
    using len urem [unfolded p_def k_def] sdiv [unfolded p_def k_def q_def]
    by (simp add: EmitElementalPad_body_def op0 TF_ASSIGN_OR_RETURN_def Let_def xs
        undefined_instruction_def p_def k_def ext_def q_def)
  then show ?thesis
    using conds by (simp add: coord conj_assoc)
qed

lemma update_prefix:
  assumes "j < length cs" "j < length out"
  shows "(take j cs @ drop j out)[j := cs ! j] = take (Suc j) cs @ drop (Suc j) out"
proof -
  have "drop j out = out ! j # drop (Suc j) out"
    using assms(2) by (simp add: Cons_nth_drop_Suc)
  moreover have "length (take j cs) = j"
    using assms(1) by simp
  ultimately show ?thesis
    using assms(1) by (simp add: list_update_append take_Suc_conv_app_nth)
qed

lemma EmitElementalPad_loop_eq:
  fixes padded_index :: "'i::len word Index"
  assumes op0: "operand hlo 0 = Inr operand0"
    and wf: "pad_well_formed hlo (dimensions (shape operand0)) padded_index"
    and j: "j \<le> length (multidim padded_index)"
  shows "EmitElementalPad_loop hlo [j ..< length (multidim padded_index)]
           (Index (take j (multidim (pad_operand_index hlo padded_index))
                   @ drop j (multidim padded_index)) lin, b)
       = Inr (Index (multidim (pad_operand_index hlo padded_index)) lin,
              b \<and> (\<forall>d. j \<le> d \<and> d < length (multidim padded_index)
                      \<longrightarrow> pad_in_bounds hlo (dimensions (shape operand0)) padded_index d))"
  using j
proof (induction "length (multidim padded_index) - j" arbitrary: j b)
  case 0
  with "0.prems" have "j = length (multidim padded_index)" by simp
  then show ?case by (auto simp add: pad_operand_index_def)
next
  case (Suc m)
  let ?n = "length (multidim padded_index)"
  let ?cs = "multidim (pad_operand_index hlo padded_index)"
  let ?inb = "pad_in_bounds hlo (dimensions (shape operand0)) padded_index"
  from Suc.hyps(2) have jn: "j < ?n" by simp
  have lcs: "length ?cs = ?n" by (simp add: pad_operand_index_def)
  have nth: "(take j ?cs @ drop j (multidim padded_index)) ! j = multidim padded_index ! j"
    using jn lcs by (simp add: nth_append)
  have body: "EmitElementalPad_body hlo j
                (Index (take j ?cs @ drop j (multidim padded_index)) lin, b)
            = Inr (Index (take (Suc j) ?cs @ drop (Suc j) (multidim padded_index)) lin,
                   b \<and> ?inb j)"
    using EmitElementalPad_body_eq [OF op0 wf jn nth, of lin b] jn lcs
    by (simp add: update_prefix)
  have rest: "EmitElementalPad_loop hlo [Suc j ..< ?n]
                (Index (take (Suc j) ?cs @ drop (Suc j) (multidim padded_index)) lin, b \<and> ?inb j)
            = Inr (Index ?cs lin, (b \<and> ?inb j) \<and> (\<forall>d. Suc j \<le> d \<and> d < ?n \<longrightarrow> ?inb d))"
    using Suc.hyps(1) [of "Suc j" "b \<and> ?inb j"] Suc.hyps(2) jn by simp
  have all: "(b \<and> ?inb j \<and> (\<forall>d. Suc j \<le> d \<and> d < ?n \<longrightarrow> ?inb d))
          \<longleftrightarrow> (b \<and> (\<forall>d. j \<le> d \<and> d < ?n \<longrightarrow> ?inb d))"
  proof -
    have "j \<le> d \<longleftrightarrow> d = j \<or> Suc j \<le> d" for d by auto
    then show ?thesis using jn by auto
  qed
  show ?case
    using jn by (simp add: upt_conv_Cons TF_ASSIGN_OR_RETURN_def body rest all)
qed

text \<open>
  Claim C5. For every output coordinate of a well-formed Pad instruction, with
  \<open>pre[d] = output[d] - edge_low[d]\<close> (computed in the index type and read as a signed
  value): the element is the operand's value at the coordinate \<open>pre[d] / (interior + 1)\<close>
  exactly when in every dimension \<open>0 \<le> pre[d]\<close>, \<open>pre[d] mod (interior + 1) = 0\<close> and
  \<open>pre[d] / (interior + 1) < operand_extent[d]\<close>; otherwise it is the value of the
  padding operand's generator at the empty coordinate.
\<close>

theorem pad_element:
  fixes padded_index :: "'i::len word Index"
  assumes "operand hlo 0 = Inr operand0"
    and "pad_well_formed hlo (dimensions (shape operand0)) padded_index"
    and "at_operand operand_to_generator hlo 0 = Inr generator0"
    and "generator0 (pad_operand_index hlo padded_index) = Inr operand_value"
    and "at_operand operand_to_generator hlo 1 = Inr generator1"
    and "generator1 empty_Index = Inr padding_value"
  shows "EmitElementalPad hlo operand_to_generator padded_index
       = Inr (if \<forall>d < length (multidim padded_index).
                   pad_in_bounds hlo (dimensions (shape operand0)) padded_index d
              then operand_value else padding_value)
       \<and> (\<forall>d < length (multidim padded_index).
             pad_in_bounds hlo (dimensions (shape operand0)) padded_index d \<longrightarrow>
             sint (multidim (pad_operand_index hlo padded_index) ! d)
               = pad_pre hlo padded_index d div (interior_padding (padding_config hlo ! d) + 1))"
proof -
  have "padded_index = Index (take 0 (multidim (pad_operand_index hlo padded_index))
                              @ drop 0 (multidim padded_index)) (linear padded_index)"
    by simp
  then have loop: "EmitElementalPad_loop hlo [0 ..< length (multidim padded_index)] (padded_index, True)
      = Inr (pad_operand_index hlo padded_index,
             \<forall>d < length (multidim padded_index).
               pad_in_bounds hlo (dimensions (shape operand0)) padded_index d)"
    using EmitElementalPad_loop_eq [OF assms(1,2), of 0 "linear padded_index" True]
    by (simp add: pad_operand_index_def)
  have first: "EmitElementalPad hlo operand_to_generator padded_index
       = Inr (if \<forall>d < length (multidim padded_index).
                   pad_in_bounds hlo (dimensions (shape operand0)) padded_index d
              then operand_value else padding_value)"
    using assms(3-6) by (simp add: EmitElementalPad_def loop TF_ASSIGN_OR_RETURN_def)
  have second: "sint (multidim (pad_operand_index hlo padded_index) ! d)
               = pad_pre hlo padded_index d div (interior_padding (padding_config hlo ! d) + 1)"
    if d: "d < length (multidim padded_index)"
      and inb: "pad_in_bounds hlo (dimensions (shape operand0)) padded_index d" for d
  proof -
    define k where "k = interior_padding (padding_config hlo ! d) + 1"
    define p :: "'i word" where
      "p = multidim padded_index ! d - index_typed_const (edge_padding_low (padding_config hlo ! d))"
    have len: "d < length (padding_config hlo)"
      using assms(2) d by (simp add: pad_well_formed_def)
    have k: "0 < k" "k < 2 ^ (LENGTH('i) - 1)"
      using assms(2) len by (auto simp: pad_well_formed_def list_all_length k_def)
    have pre: "pad_pre hlo padded_index d = sint p"
      by (simp add: pad_pre_def p_def)
    have nonneg: "0 \<le> sint p"
      using inb by (simp add: pad_in_bounds_def Let_def pre)
    have "multidim (pad_operand_index hlo padded_index) ! d = word_of_int (sint p sdiv k)"
      using d by (simp add: pad_operand_index_def pre k_def)
    then show ?thesis
      by (simp only: sdiv_nonneg(2) [OF nonneg k] pre k_def [symmetric])
  qed
  from first second show ?thesis by blast
qed

lemmas example_pad_defs =
  example_pad_def example_pad_operand_def example_pad_value_def example_instruction_def
  example_shape_def example_pad_generators_def example_pad_input_def

lemma example_pad_hyps:
  "operand example_pad 0 = Inr example_pad_operand"
  "pad_well_formed example_pad (dimensions (shape example_pad_operand)) (Index [i :: 64 word] None)"
  "at_operand example_pad_generators example_pad 0 = Inr (example_pad_input)"
  "at_operand example_pad_generators example_pad 1 = Inr (\<lambda>index. Inr (I32 0))"
  by (simp_all add: example_pad_defs operand_def pad_well_formed_def at_operand_def
      TF_ASSIGN_OR_RETURN_def)

theorem pad_element_witness:
  "EmitElementalPad example_pad example_pad_generators (Index [0] None) = Inr (I32 0)
 \<and> EmitElementalPad example_pad example_pad_generators (Index [2] None) = Inr (I32 8)
 \<and> EmitElementalPad example_pad example_pad_generators (Index [4] None) = Inr (I32 0)"
proof -
  have g0: "example_pad_input (pad_operand_index example_pad (Index [0] None)) = Inr (I32 0xBAD)"
    by (simp add: example_pad_defs pad_operand_index_def pad_pre_def index_typed_const_def
        signed_divide_int_def)
  have g2: "example_pad_input (pad_operand_index example_pad (Index [2] None)) = Inr (I32 8)"
    by (simp add: example_pad_defs pad_operand_index_def pad_pre_def index_typed_const_def
        signed_divide_int_def)
  have g4: "example_pad_input (pad_operand_index example_pad (Index [4] None)) = Inr (I32 0xBAD)"
    by (simp add: example_pad_defs pad_operand_index_def pad_pre_def index_typed_const_def
        signed_divide_int_def)
  have p: "(\<lambda>index :: 64 word Index. Inr (I32 0) :: unit Value StatusOr) empty_Index = Inr (I32 0)"
    by simp
  note h = example_pad_hyps
  from pad_element [OF h(1) h(2) h(3) g0 h(4) p]
    pad_element [OF h(1) h(2) h(3) g2 h(4) p]
    pad_element [OF h(1) h(2) h(3) g4 h(4) p]
  show ?thesis
    by (simp add: pad_in_bounds_def pad_pre_def index_typed_const_def example_pad_defs)
qed

section \<open>Properties of Dot\<close>

lemma unat_index_typed_const:
  assumes "int n < 2 ^ LENGTH('i::len)"
  shows "unat (index_typed_const (int n) :: 'i word) = n"
proof -
  from assms have "n < 2 ^ LENGTH('i)"
    by (metis of_nat_less_iff of_nat_numeral of_nat_power)
  then show ?thesis
    by (simp add: index_typed_const_def unat_of_nat)
qed

lemma dot_operand_index_lhs:
  assumes "0 \<le> lc" "lc \<le> int lhs_free" "length xs = lhs_free + rhs_free"
  shows "dot_operand_index (Index xs lin) 0 (int lhs_free) lc t
       = Inr (contraction_coordinate (take lhs_free xs) lc t)"
  using assms by (simp add: dot_operand_index_def InsertAt_def contraction_coordinate_def)

lemma dot_operand_index_rhs:
  assumes "0 \<le> rc" "rc \<le> int rhs_free" "length xs = lhs_free + rhs_free"
  shows "dot_operand_index (Index xs lin) (int lhs_free) (int rhs_free) rc t
       = Inr (contraction_coordinate (drop lhs_free xs) rc t)"
  using assms by (simp add: dot_operand_index_def InsertAt_def contraction_coordinate_def)

lemma EmitElementalDot_body_eq:
  fixes dot_result_index :: "'i::len word Index"
  assumes "0 \<le> lc" "lc \<le> int lhs_free" "0 \<le> rc" "rc \<le> int rhs_free"
    and "length (multidim dot_result_index) = lhs_free + rhs_free"
    and "lhs_gen (contraction_coordinate (take lhs_free (multidim dot_result_index)) lc t) = Inr lhs_value"
    and "rhs_gen (contraction_coordinate (drop lhs_free (multidim dot_result_index)) rc t) = Inr rhs_value"
  shows "EmitElementalDot_body b hlo lhs_gen rhs_gen (int (Suc lhs_free)) (int (Suc rhs_free))
           lc rc dot_result_index t acc
       = next_accumulator b (element_type (shape hlo)) acc lhs_value rhs_value"
proof -
  obtain xs lin where idx: "dot_result_index = Index xs lin"
    by (cases dot_result_index)
  show ?thesis
    using assms(5-7)
    by (simp add: EmitElementalDot_body_def idx TF_ASSIGN_OR_RETURN_def
        dot_operand_index_lhs [OF assms(1,2)] dot_operand_index_rhs [OF assms(3,4)])
qed

lemma ForLoop_fold:
  assumes "\<And>k a. k < n \<Longrightarrow> body (of_nat (s + k)) (g a) = Inr (g (f (s + k) a))"
  shows "ForLoop body n (of_nat s) (g a) = Inr (g (foldl (\<lambda>a t. f t a) a [s ..< s + n]))"
  using assms
proof (induction n arbitrary: s a)
  case 0
  then show ?case by simp
next
  case (Suc n)
  have first: "body (of_nat s) (g a) = Inr (g (f s a))"
    using Suc.prems [of 0 a] by simp
  have step: "body (of_nat (Suc s + k)) (g a') = Inr (g (f (Suc s + k) a'))" if "k < n" for k a'
    using Suc.prems [of "Suc k" a'] that by simp
  have rest: "ForLoop body n (of_nat (Suc s)) (g (f s a))
      = Inr (g (foldl (\<lambda>a t. f t a) (f s a) [Suc s ..< Suc s + n]))"
    by (rule Suc.IH) (rule step)
  have "[s ..< s + Suc n] = s # [Suc s ..< Suc s + n]"
    by (simp add: upt_conv_Cons)
  then show ?case
    using first rest by (simp add: TF_ASSIGN_OR_RETURN_def add.commute)
qed

lemma foldl_sum: "foldl (\<lambda>a t. a + h t) (a :: int) [0 ..< n] = a + (\<Sum>t<n. h t)"
  by (induction n) (simp_all add: add.assoc)

lemma next_accumulator_int:
  assumes "IsIntegralType ty \<or> ty = PRED"
  shows "next_accumulator b ty (int_value ty a) (int_value ty x) (int_value ty y)
       = Inr (int_value ty (a + x * y))"
  using assms
  by (auto simp: next_accumulator_def IsIntegralType_def IsSignedIntegralType_def
      IsUnsignedIntegralType_def IsComplexType_def IsFloatingPointType_def int_value_def
      TF_ASSIGN_OR_RETURN_def CreateMul_def CreateAdd_def)

lemma next_accumulator_float:
  assumes "IsFloatingPointType ty"
  shows "next_accumulator b ty (FloatV a) (FloatV x) (FloatV y)
       = Inr (FloatV (CreateFAdd b a (CreateFMul b x y)))"
  using assms
  by (auto simp: next_accumulator_def IsComplexType_def IsFloatingPointType_def
      TF_ASSIGN_OR_RETURN_def float_instruction_def float_operands_def)

lemma next_accumulator_complex:
  assumes "IsComplexType ty"
  shows "next_accumulator b ty (ComplexV are aim) (ComplexV xre xim) (ComplexV yre yim)
       = Inr (ComplexV
                (CreateFAdd b are (CreateFSub b (CreateFMul b xre yre) (CreateFMul b xim yim)))
                (CreateFAdd b aim (CreateFAdd b (CreateFMul b xre yim) (CreateFMul b xim yre))))"
  using assms
  by (simp add: next_accumulator_def TF_ASSIGN_OR_RETURN_def EmitExtractReal_def
      EmitExtractImag_def Let_def)

lemma getNullValue_int:
  assumes "IsIntegralType ty \<or> ty = PRED"
  shows "getNullValue b ty = Inr (int_value ty 0)"
  using assms
  by (auto simp: getNullValue_def IsIntegralType_def IsSignedIntegralType_def
      IsUnsignedIntegralType_def int_value_def)

lemma getNullValue_float:
  assumes "ty = F16 \<or> ty = F32 \<or> ty = F64"
  shows "getNullValue b ty = Inr (FloatV (ConstantFP b ty 0))"
  using assms by (auto simp: getNullValue_def)

lemma getNullValue_complex:
  assumes "IsComplexType ty"
  shows "getNullValue b ty = Inr (ComplexV (ConstantFP b F32 0) (ConstantFP b F32 0))"
  using assms by (simp add: getNullValue_def IsComplexType_def)

lemma EmitElementalDot_loop:
  fixes dot_result_index :: "'i::len word Index"
  assumes wf: "dot_well_formed hlo operand_to_generator dot_result_index lhs_gen rhs_gen
                 lc rc lhs_free rhs_free extent"
    and nonscalar: "0 < lhs_free + rhs_free"
    and zero: "getNullValue b (element_type (shape hlo)) = Inr (g a)"
    and step: "\<And>t a. t < max 1 extent \<Longrightarrow>
                 \<exists>lhs_value rhs_value.
                   lhs_gen (dot_lhs_index dot_result_index lhs_free lc (of_nat t)) = Inr lhs_value
                 \<and> rhs_gen (dot_rhs_index dot_result_index lhs_free rc (of_nat t)) = Inr rhs_value
                 \<and> next_accumulator b (element_type (shape hlo)) (g a) lhs_value rhs_value
                     = Inr (g (f t a))"
  shows "EmitElementalDot b hlo operand_to_generator dot_result_index
       = Inr (g (foldl (\<lambda>a t. f t a) a [0 ..< extent]))"
proof -
  from wf obtain operand0 operand1 where
    ops: "operands hlo = [operand0, operand1]"
    and gens: "operand_to_generator operand0 = Some lhs_gen"
      "operand_to_generator operand1 = Some rhs_gen"
    and dims: "repeated_field (lhs_contracting_dimensions (dot_dimension_numbers hlo)) 0 = Inr lc"
      "repeated_field (rhs_contracting_dimensions (dot_dimension_numbers hlo)) 0 = Inr rc"
    and ranks: "length (dimensions (shape operand0)) = Suc lhs_free"
      "length (dimensions (shape operand1)) = Suc rhs_free"
    and bounds: "0 \<le> lc" "lc \<le> int lhs_free" "0 \<le> rc" "rc \<le> int rhs_free"
    and ext: "dimensions (shape operand0) ! nat lc = int extent"
    and small: "int extent < 2 ^ LENGTH('i)"
    and len: "length (multidim dot_result_index) = lhs_free + rhs_free"
    unfolding dot_well_formed_def by blast
  have body: "EmitElementalDot_body b hlo lhs_gen rhs_gen (int (Suc lhs_free)) (int (Suc rhs_free))
                lc rc dot_result_index (of_nat (0 + k)) (g a')
              = Inr (g (f (0 + k) a'))" if "k < max 1 extent" for k a'
  proof -
    from step [OF that, of a'] obtain lhs_value rhs_value where
      l: "lhs_gen (dot_lhs_index dot_result_index lhs_free lc (of_nat k)) = Inr lhs_value"
      and r: "rhs_gen (dot_rhs_index dot_result_index lhs_free rc (of_nat k)) = Inr rhs_value"
      and n: "next_accumulator b (element_type (shape hlo)) (g a') lhs_value rhs_value
                = Inr (g (f k a'))"
      by blast
    show ?thesis
      using EmitElementalDot_body_eq [where lhs_gen = lhs_gen and rhs_gen = rhs_gen
            and lhs_free = lhs_free and rhs_free = rhs_free and lc = lc and rc = rc
            and dot_result_index = dot_result_index and t = "of_nat k"
            and lhs_value = lhs_value and rhs_value = rhs_value and b = b and hlo = hlo
            and acc = "g a'"]
        bounds len l r n
      by (simp add: dot_lhs_index_def dot_rhs_index_def)
  qed
  have loop: "ForLoop (EmitElementalDot_body b hlo lhs_gen rhs_gen (int (Suc lhs_free))
                  (int (Suc rhs_free)) lc rc dot_result_index) extent (of_nat 0) (g a)
              = Inr (g (foldl (\<lambda>a t. f t a) a [0 ..< 0 + extent]))"
  proof (rule ForLoop_fold)
    fix k a'
    assume "k < extent"
    then have "k < max 1 extent"
      by simp
    then show "EmitElementalDot_body b hlo lhs_gen rhs_gen (int (Suc lhs_free))
                 (int (Suc rhs_free)) lc rc dot_result_index (of_nat (0 + k)) (g a')
               = Inr (g (f (0 + k) a'))"
      by (rule body)
  qed
  have emitted: "EmitElementalDot_body b hlo lhs_gen rhs_gen (int (Suc lhs_free))
                   (int (Suc rhs_free)) lc rc dot_result_index 0 (g a) = Inr (g (f 0 a))"
    using body [of 0 a] by simp
  have sd: "shape_dimensions (shape operand0) lc = Inr (int extent)"
    using bounds ranks ext by (simp add: shape_dimensions_def)
  have ne: "multidim dot_result_index \<noteq> []"
    using len nonscalar by auto
  show ?thesis
    using loop emitted
    by (simp add: EmitElementalDot_def at_operand_def operand_def ops gens dims sd ranks ne zero
        TF_ASSIGN_OR_RETURN_def Let_def unat_index_typed_const [OF small])
qed

lemma EmitElementalDot_emitted_body:
  fixes dot_result_index :: "'i::len word Index"
  assumes wf: "dot_well_formed hlo operand_to_generator dot_result_index lhs_gen rhs_gen
                 lc rc lhs_free rhs_free extent"
    and nonscalar: "0 < lhs_free + rhs_free"
    and zero: "getNullValue b (element_type (shape hlo)) = Inr zero"
    and emitted: "TF_ASSIGN_OR_RETURN (lhs_gen (dot_lhs_index dot_result_index lhs_free lc 0))
                    (\<lambda>lhs_value.
                  TF_ASSIGN_OR_RETURN (rhs_gen (dot_rhs_index dot_result_index lhs_free rc 0))
                    (\<lambda>rhs_value.
                     next_accumulator b (element_type (shape hlo)) zero lhs_value rhs_value))
                  = Inl status"
  shows "EmitElementalDot b hlo operand_to_generator dot_result_index = Inl status"
proof -
  from wf obtain operand0 operand1 where
    ops: "operands hlo = [operand0, operand1]"
    and gens: "operand_to_generator operand0 = Some lhs_gen"
      "operand_to_generator operand1 = Some rhs_gen"
    and dims: "repeated_field (lhs_contracting_dimensions (dot_dimension_numbers hlo)) 0 = Inr lc"
      "repeated_field (rhs_contracting_dimensions (dot_dimension_numbers hlo)) 0 = Inr rc"
    and ranks: "length (dimensions (shape operand0)) = Suc lhs_free"
      "length (dimensions (shape operand1)) = Suc rhs_free"
    and bounds: "0 \<le> lc" "lc \<le> int lhs_free" "0 \<le> rc" "rc \<le> int rhs_free"
    and ext: "dimensions (shape operand0) ! nat lc = int extent"
    and len: "length (multidim dot_result_index) = lhs_free + rhs_free"
    unfolding dot_well_formed_def by blast
  obtain xs lin where idx: "dot_result_index = Index xs lin"
    by (cases dot_result_index)
  have body: "EmitElementalDot_body b hlo lhs_gen rhs_gen (int (Suc lhs_free)) (int (Suc rhs_free))
                lc rc dot_result_index 0 zero = Inl status"
    using emitted len
    by (simp add: EmitElementalDot_body_def idx TF_ASSIGN_OR_RETURN_def dot_lhs_index_def
        dot_rhs_index_def dot_operand_index_lhs [OF bounds(1,2)]
        dot_operand_index_rhs [OF bounds(3,4)])
  have sd: "shape_dimensions (shape operand0) lc = Inr (int extent)"
    using bounds ranks ext by (simp add: shape_dimensions_def)
  have ne: "multidim dot_result_index \<noteq> []"
    using len nonscalar by auto
  show ?thesis
    using body
    by (simp add: EmitElementalDot_def at_operand_def operand_def ops gens dims sd ranks ne zero
        TF_ASSIGN_OR_RETURN_def Let_def)
qed

text \<open>
  For a well-formed Dot instruction that contracts one dimension per side and whose
  result has at least one dimension, the element at an output coordinate is what a loop
  over \<open>t\<close> from 0 to the contraction extent accumulates from
  \<open>lhs[..., t, ...] * rhs[..., t, ...]\<close>, starting from the zero of the output element
  type: for an integer type the sum of the products (in the arithmetic of the type), for
  a floating-point type the left-to-right sum of the products in the target's
  arithmetic, and for a complex type the real and the imaginary part accumulated
  separately. The operand generators succeed where the emitter calls them: for the
  values of the loop and, as the body is emitted for an empty loop too, for the
  induction variable 0. A failure of an operand generator there is the result of the
  emitter, whatever the extent.
\<close>

lemma dot_element:
  fixes dot_result_index :: "'i::len word Index" and b :: "'f IRBuilder"
  assumes "dot_well_formed hlo operand_to_generator dot_result_index lhs_gen rhs_gen
             lc rc lhs_free rhs_free extent"
    and "0 < lhs_free + rhs_free"
    and "\<And>t. lhs_index t = dot_lhs_index dot_result_index lhs_free lc (of_nat t)"
    and "\<And>t. rhs_index t = dot_rhs_index dot_result_index lhs_free rc (of_nat t)"
    and "ty = element_type (shape hlo)"
  shows "((IsIntegralType ty \<or> ty = PRED)
          \<and> (\<forall>t < max 1 extent. lhs_gen (lhs_index t) = Inr (int_value ty (l t))
                               \<and> rhs_gen (rhs_index t) = Inr (int_value ty (r t)))
          \<longrightarrow> EmitElementalDot b hlo operand_to_generator dot_result_index
              = Inr (int_value ty (\<Sum>t < extent. l t * r t)))
       \<and> ((ty = F16 \<or> ty = F32 \<or> ty = F64)
          \<and> (\<forall>t < max 1 extent. lhs_gen (lhs_index t) = Inr (FloatV (x t))
                               \<and> rhs_gen (rhs_index t) = Inr (FloatV (y t)))
          \<longrightarrow> EmitElementalDot b hlo operand_to_generator dot_result_index
              = Inr (FloatV (foldl (\<lambda>acc t. CreateFAdd b acc (CreateFMul b (x t) (y t)))
                               (ConstantFP b ty 0) [0 ..< extent])))
       \<and> (IsComplexType ty
          \<and> (\<forall>t < max 1 extent. lhs_gen (lhs_index t) = Inr (ComplexV (x t) (x' t))
                               \<and> rhs_gen (rhs_index t) = Inr (ComplexV (y t) (y' t)))
          \<longrightarrow> EmitElementalDot b hlo operand_to_generator dot_result_index
              = Inr (case foldl (\<lambda>(re, im) t.
                                   (CreateFAdd b re (CreateFSub b (CreateFMul b (x t) (y t))
                                                                  (CreateFMul b (x' t) (y' t))),
                                    CreateFAdd b im (CreateFAdd b (CreateFMul b (x t) (y' t))
                                                                  (CreateFMul b (x' t) (y t)))))
                                (ConstantFP b F32 0, ConstantFP b F32 0) [0 ..< extent]
                     of (re, im) \<Rightarrow> ComplexV re im))
       \<and> (getNullValue b ty = Inr zero \<and> lhs_gen (lhs_index 0) = Inl status
          \<longrightarrow> EmitElementalDot b hlo operand_to_generator dot_result_index = Inl status)
       \<and> (getNullValue b ty = Inr zero \<and> lhs_gen (lhs_index 0) = Inr lhs_value
          \<and> rhs_gen (rhs_index 0) = Inl status
          \<longrightarrow> EmitElementalDot b hlo operand_to_generator dot_result_index = Inl status)"
proof (intro conjI impI)
  assume h: "(IsIntegralType ty \<or> ty = PRED)
          \<and> (\<forall>t < max 1 extent. lhs_gen (lhs_index t) = Inr (int_value ty (l t))
                               \<and> rhs_gen (rhs_index t) = Inr (int_value ty (r t)))"
  have "EmitElementalDot b hlo operand_to_generator dot_result_index
      = Inr (int_value ty (foldl (\<lambda>a t. a + l t * r t) 0 [0 ..< extent]))"
  proof (rule EmitElementalDot_loop [OF assms(1,2), where g = "int_value ty"
        and f = "\<lambda>t a. a + l t * r t"])
    show "getNullValue b (element_type (shape hlo)) = Inr (int_value ty 0)"
      using h getNullValue_int [of ty b] by (simp add: assms(5))
  next
    fix t a
    assume "t < max 1 extent"
    then show "\<exists>lhs_value rhs_value.
          lhs_gen (dot_lhs_index dot_result_index lhs_free lc (of_nat t)) = Inr lhs_value
        \<and> rhs_gen (dot_rhs_index dot_result_index lhs_free rc (of_nat t)) = Inr rhs_value
        \<and> next_accumulator b (element_type (shape hlo)) (int_value ty a) lhs_value rhs_value
            = Inr (int_value ty (a + l t * r t))"
      using h next_accumulator_int [of ty b a "l t" "r t"]
      by (simp add: assms(3-5) [symmetric])
  qed
  then show "EmitElementalDot b hlo operand_to_generator dot_result_index
      = Inr (int_value ty (\<Sum>t < extent. l t * r t))"
    by (simp add: foldl_sum)
next
  assume h: "(ty = F16 \<or> ty = F32 \<or> ty = F64)
          \<and> (\<forall>t < max 1 extent. lhs_gen (lhs_index t) = Inr (FloatV (x t))
                               \<and> rhs_gen (rhs_index t) = Inr (FloatV (y t)))"
  then have fl: "IsFloatingPointType ty"
    by (auto simp: IsFloatingPointType_def)
  show "EmitElementalDot b hlo operand_to_generator dot_result_index
      = Inr (FloatV (foldl (\<lambda>acc t. CreateFAdd b acc (CreateFMul b (x t) (y t)))
                       (ConstantFP b ty 0) [0 ..< extent]))"
  proof (rule EmitElementalDot_loop [OF assms(1,2), where g = FloatV
        and f = "\<lambda>t acc. CreateFAdd b acc (CreateFMul b (x t) (y t))"])
    show "getNullValue b (element_type (shape hlo)) = Inr (FloatV (ConstantFP b ty 0))"
      using h getNullValue_float [of ty b] by (simp add: assms(5))
  next
    fix t a
    assume "t < max 1 extent"
    then show "\<exists>lhs_value rhs_value.
          lhs_gen (dot_lhs_index dot_result_index lhs_free lc (of_nat t)) = Inr lhs_value
        \<and> rhs_gen (dot_rhs_index dot_result_index lhs_free rc (of_nat t)) = Inr rhs_value
        \<and> next_accumulator b (element_type (shape hlo)) (FloatV a) lhs_value rhs_value
            = Inr (FloatV (CreateFAdd b a (CreateFMul b (x t) (y t))))"
      using h next_accumulator_float [OF fl, of b a "x t" "y t"]
      by (simp add: assms(3-5) [symmetric])
  qed
next
  assume h: "IsComplexType ty
          \<and> (\<forall>t < max 1 extent. lhs_gen (lhs_index t) = Inr (ComplexV (x t) (x' t))
                               \<and> rhs_gen (rhs_index t) = Inr (ComplexV (y t) (y' t)))"
  then have cx: "IsComplexType ty"
    by simp
  have "EmitElementalDot b hlo operand_to_generator dot_result_index
      = Inr (ComplexV
          (fst (foldl (\<lambda>a t.
                   (CreateFAdd b (fst a) (CreateFSub b (CreateFMul b (x t) (y t))
                                                       (CreateFMul b (x' t) (y' t))),
                    CreateFAdd b (snd a) (CreateFAdd b (CreateFMul b (x t) (y' t))
                                                       (CreateFMul b (x' t) (y t)))))
                 (ConstantFP b F32 0, ConstantFP b F32 0) [0 ..< extent]))
          (snd (foldl (\<lambda>a t.
                   (CreateFAdd b (fst a) (CreateFSub b (CreateFMul b (x t) (y t))
                                                       (CreateFMul b (x' t) (y' t))),
                    CreateFAdd b (snd a) (CreateFAdd b (CreateFMul b (x t) (y' t))
                                                       (CreateFMul b (x' t) (y t)))))
                 (ConstantFP b F32 0, ConstantFP b F32 0) [0 ..< extent])))"
  proof (rule EmitElementalDot_loop [OF assms(1,2), where g = "\<lambda>a. ComplexV (fst a) (snd a)"
        and f = "\<lambda>t a.
                   (CreateFAdd b (fst a) (CreateFSub b (CreateFMul b (x t) (y t))
                                                       (CreateFMul b (x' t) (y' t))),
                    CreateFAdd b (snd a) (CreateFAdd b (CreateFMul b (x t) (y' t))
                                                       (CreateFMul b (x' t) (y t))))"
        and a = "(ConstantFP b F32 0, ConstantFP b F32 0)"])
    show "getNullValue b (element_type (shape hlo))
        = Inr (ComplexV (fst (ConstantFP b F32 0, ConstantFP b F32 0))
                        (snd (ConstantFP b F32 0, ConstantFP b F32 0)))"
      using getNullValue_complex [OF cx, of b] by (simp add: assms(5))
  next
    fix t and a :: "'f \<times> 'f"
    assume t: "t < max 1 extent"
    show "\<exists>lhs_value rhs_value.
          lhs_gen (dot_lhs_index dot_result_index lhs_free lc (of_nat t)) = Inr lhs_value
        \<and> rhs_gen (dot_rhs_index dot_result_index lhs_free rc (of_nat t)) = Inr rhs_value
        \<and> next_accumulator b (element_type (shape hlo))
            (ComplexV (fst a) (snd a)) lhs_value rhs_value
            = Inr (ComplexV
                (fst (CreateFAdd b (fst a) (CreateFSub b (CreateFMul b (x t) (y t))
                                                         (CreateFMul b (x' t) (y' t))),
                      CreateFAdd b (snd a) (CreateFAdd b (CreateFMul b (x t) (y' t))
                                                         (CreateFMul b (x' t) (y t)))))
                (snd (CreateFAdd b (fst a) (CreateFSub b (CreateFMul b (x t) (y t))
                                                         (CreateFMul b (x' t) (y' t))),
                      CreateFAdd b (snd a) (CreateFAdd b (CreateFMul b (x t) (y' t))
                                                         (CreateFMul b (x' t) (y t))))))"
      using t h next_accumulator_complex [OF cx, of b "fst a" "snd a" "x t" "x' t" "y t" "y' t"]
      by (simp add: assms(3-5) [symmetric])
  qed
  then show "EmitElementalDot b hlo operand_to_generator dot_result_index
      = Inr (case foldl (\<lambda>(re, im) t.
                           (CreateFAdd b re (CreateFSub b (CreateFMul b (x t) (y t))
                                                          (CreateFMul b (x' t) (y' t))),
                            CreateFAdd b im (CreateFAdd b (CreateFMul b (x t) (y' t))
                                                          (CreateFMul b (x' t) (y t)))))
                        (ConstantFP b F32 0, ConstantFP b F32 0) [0 ..< extent]
             of (re, im) \<Rightarrow> ComplexV re im)"
    by (simp add: case_prod_unfold)
next
  assume h: "getNullValue b ty = Inr zero \<and> lhs_gen (lhs_index 0) = Inl status"
  show "EmitElementalDot b hlo operand_to_generator dot_result_index = Inl status"
    using h assms(3) [of 0]
    by (intro EmitElementalDot_emitted_body [OF assms(1,2), where zero = zero])
      (simp_all add: assms(5) TF_ASSIGN_OR_RETURN_def)
next
  assume h: "getNullValue b ty = Inr zero \<and> lhs_gen (lhs_index 0) = Inr lhs_value
          \<and> rhs_gen (rhs_index 0) = Inl status"
  show "EmitElementalDot b hlo operand_to_generator dot_result_index = Inl status"
    using h assms(3) [of 0] assms(4) [of 0]
    by (intro EmitElementalDot_emitted_body [OF assms(1,2), where zero = zero])
      (simp_all add: assms(5) TF_ASSIGN_OR_RETURN_def)
qed

lemmas example_dot_defs =
  example_dot_def example_dot_lhs_def example_dot_rhs_def example_instruction_def
  example_shape_def example_dot_generators_def

lemma example_dot_well_formed:
  "dot_well_formed example_dot example_dot_generators (Index [1, 2 :: 64 word] None)
     (example_matrix 3) (example_matrix 4) 1 0 1 1 3"
  unfolding dot_well_formed_def
  by (rule exI [of _ example_dot_lhs], rule exI [of _ example_dot_rhs])
    (simp add: example_dot_defs repeated_field_def)

lemma dot_element_example:
  "EmitElementalDot exact_target example_dot example_dot_generators (Index [1, 2] None)
     = Inr (I32 113)"
proof -
  have operand_values: "\<forall>t < max 1 3.
      example_matrix 3 (dot_lhs_index (Index [1, 2] None) 1 1 (of_nat t))
        = Inr (int_value S32 (4 + int t))
    \<and> example_matrix 4 (dot_rhs_index (Index [1, 2] None) 1 0 (of_nat t))
        = Inr (int_value S32 (4 * int t + 3))"
    by (simp add: example_matrix_def dot_lhs_index_def dot_rhs_index_def
        contraction_coordinate_def int_value_def less_Suc_eq numeral_3_eq_3)
  have total: "(\<Sum>t < (3::nat). (4 + int t) * (4 * int t + 3)) = 113"
    by (simp add: numeral_3_eq_3)
  from dot_element [OF example_dot_well_formed _ refl refl refl,
      where b = exact_target and l = "\<lambda>t. 4 + int t" and r = "\<lambda>t. 4 * int t + 3"]
    operand_values
  show ?thesis
    by (simp add: total example_dot_defs IsIntegralType_def IsSignedIntegralType_def int_value_def)
qed

lemmas example_vector_dot_defs =
  example_vector_dot_def example_vector_dot_lhs_def example_vector_dot_rhs_def
  example_instruction_def example_shape_def example_vector_dot_generators_def

lemma example_vector_dot_well_formed:
  "dot_well_formed example_vector_dot example_vector_dot_generators (Index [] None :: 64 word Index)
     (example_vector 1) (example_vector 4) 0 0 0 0 3"
  unfolding dot_well_formed_def
  by (rule exI [of _ example_vector_dot_lhs], rule exI [of _ example_vector_dot_rhs])
    (simp add: example_vector_dot_defs repeated_field_def)

text \<open>
  Claim C6. The Dot of the vectors [1, 2, 3] and [4, 5, 6] is a well-formed Dot that
  contracts one dimension per side; the sum over \<open>t\<close> of \<open>lhs[t] * rhs[t]\<close> is 32. Its
  result is a scalar, so the output coordinate has no entries, and the emitter, which
  reads the index type from the entry 0 of the output coordinate, reads outside of it
  instead of giving the sum.
\<close>

theorem dot_of_vectors_reads_missing_coordinate:
  "dot_well_formed example_vector_dot example_vector_dot_generators (Index [] None :: 64 word Index)
     (example_vector 1) (example_vector 4) 0 0 0 0 3
 \<and> map (\<lambda>t. example_vector 1 (dot_lhs_index (Index [] None) 0 0 t)) [0, 1, 2]
     = [Inr (I32 1), Inr (I32 2), Inr (I32 3)]
 \<and> map (\<lambda>t. example_vector 4 (dot_rhs_index (Index [] None) 0 0 t)) [0, 1, 2]
     = [Inr (I32 4), Inr (I32 5), Inr (I32 6)]
 \<and> EmitElementalDot exact_target example_vector_dot example_vector_dot_generators
       (Index [] None :: 64 word Index)
     = Inl (Fatal ''dot_result_index[0] out of range'')"
proof (intro conjI)
  show "dot_well_formed example_vector_dot example_vector_dot_generators
          (Index [] None :: 64 word Index) (example_vector 1) (example_vector 4) 0 0 0 0 3"
    by (rule example_vector_dot_well_formed)
  show "map (\<lambda>t. example_vector 1 (dot_lhs_index (Index [] None) 0 0 t)) [0, 1, 2]
      = [Inr (I32 1), Inr (I32 2), Inr (I32 3)]"
    by (simp add: example_vector_def dot_lhs_index_def contraction_coordinate_def)
  show "map (\<lambda>t. example_vector 4 (dot_rhs_index (Index [] None) 0 0 t)) [0, 1, 2]
      = [Inr (I32 4), Inr (I32 5), Inr (I32 6)]"
    by (simp add: example_vector_def dot_rhs_index_def contraction_coordinate_def)
  show "EmitElementalDot exact_target example_vector_dot example_vector_dot_generators
          (Index [] None :: 64 word Index)
      = Inl (Fatal ''dot_result_index[0] out of range'')"
    by (simp add: EmitElementalDot_def at_operand_def operand_def example_vector_dot_defs
        repeated_field_def shape_dimensions_def TF_ASSIGN_OR_RETURN_def)
qed

section \<open>Properties of the random number generator\<close>

lemma CalculateSampleValues_loop_length:
  "length (fst (CalculateSampleValues_loop n (counter_values, key_values))) = length counter_values"
  by (induction n arbitrary: counter_values key_values) (simp_all add: Let_def split: prod.splits)

lemma CalculateSampleValues_length:
  "CalculateSampleValues sample_idx hlo_random_value global_random_number rng_state
     = Inr counter_values \<Longrightarrow> length counter_values = 4"
  by (auto simp: CalculateSampleValues_def Let_def CalculateSampleValues_loop_length
      split: if_splits prod.splits)

lemma store_counter_values_eq:
  assumes "length counter_values = 4" "length sample = 4"
  shows "store_counter_values counter_values sample = counter_values"
proof -
  have upt: "[0 ..< 4] = [0, 1, 2, 3]"
    by (simp add: upt_rec)
  show ?thesis
    using assms
    by (auto simp: store_counter_values_def upt list_eq_iff_nth_eq nth_list_update less_Suc_eq
        numeral_eq_Suc)
qed

lemma PhiloxRngElementGenerator_eq:
  assumes "length sample = 4"
    and "GetNumberOfElementsPerPhiloxRngSample (element_type (shape hlo)) = Inr elems_per_sample"
  shows "fst (PhiloxRngElementGenerator b hlo operand_to_generator hlo_random_value
                global_random_number elems_per_sample rng_state index sample)
       = philox_element b hlo operand_to_generator hlo_random_value global_random_number
           rng_state index"
proof -
  have n: "elems_per_sample = 2 \<or> elems_per_sample = 4"
    using assms(2) by (auto simp: GetNumberOfElementsPerPhiloxRngSample_def split: if_splits)
  show ?thesis
    using assms(1) n
    by (auto simp: PhiloxRngElementGenerator_def philox_element_def assms(2) Let_def
        TF_ASSIGN_OR_RETURN_def store_counter_values_eq CalculateSampleValues_length
        split: sum.splits option.splits prod.splits)
qed

text \<open>
  Claim C7, amended. The Philox generator is deterministic: two generators made for the
  same instruction with the same module random number, the same global seed (the
  configured seed or, if that is 0, the global random number) and the same value of the
  state variable of the Philox algorithm give the same result at the same output
  coordinate, whatever the stack storage of the sample held before either call; the
  result is the function \<open>philox_element\<close> of the coordinate, the two seeds and the value
  of the state variable.
\<close>

theorem philox_deterministic:
  assumes "MakePhiloxRngElementGenerator b ctx1 hlo operand_to_generator = Inr generator1"
    and "MakePhiloxRngElementGenerator b ctx2 hlo operand_to_generator = Inr generator2"
    and "RandomNew64 ctx1 = RandomNew64 ctx2"
    and "global_seed ctx1 = global_seed ctx2"
    and "rng_state_value ctx1 = rng_state_value ctx2"
    and "length sample1 = 4" and "length sample2 = 4"
  shows "fst (generator1 index sample1) = fst (generator2 index sample2)
       \<and> fst (generator1 index sample1)
           = philox_element b hlo operand_to_generator (RandomNew64 ctx1) (global_seed ctx1)
               (rng_state_value ctx1) index"
proof -
  from assms(1) obtain elems_per_sample where
    g1: "generator1 = PhiloxRngElementGenerator b hlo operand_to_generator (RandomNew64 ctx1)
           (global_seed ctx1) elems_per_sample (rng_state_value ctx1)"
    and n: "GetNumberOfElementsPerPhiloxRngSample (element_type (shape hlo)) = Inr elems_per_sample"
    by (auto simp: MakePhiloxRngElementGenerator_def Let_def TF_ASSIGN_OR_RETURN_def global_seed_def
        split: if_splits sum.splits)
  from assms(2) n have
    g2: "generator2 = PhiloxRngElementGenerator b hlo operand_to_generator (RandomNew64 ctx2)
           (global_seed ctx2) elems_per_sample (rng_state_value ctx2)"
    by (auto simp: MakePhiloxRngElementGenerator_def Let_def TF_ASSIGN_OR_RETURN_def global_seed_def
        split: if_splits sum.splits)
  have first: "fst (generator1 index sample1)
      = philox_element b hlo operand_to_generator (RandomNew64 ctx1) (global_seed ctx1)
          (rng_state_value ctx1) index"
    unfolding g1 by (rule PhiloxRngElementGenerator_eq [OF assms(6) n])
  have second: "fst (generator2 index sample2)
      = philox_element b hlo operand_to_generator (RandomNew64 ctx2) (global_seed ctx2)
          (rng_state_value ctx2) index"
    unfolding g2 by (rule PhiloxRngElementGenerator_eq [OF assms(7) n])
  show ?thesis
    using first second by (simp add: assms(3-5))
qed

lemmas example_rng_defs =
  example_rng_def example_rng_generators_def example_instruction_def example_shape_def
  example_rng_context_def

lemma example_rng_made:
  "MakePhiloxRngElementGenerator exact_target (example_rng_context configured global state) example_rng
     example_rng_generators
   = Inr (PhiloxRngElementGenerator exact_target example_rng example_rng_generators
            0x299f31d0a4093822 (if configured \<noteq> 0 then configured else global) 4 state)"
  by (simp add: MakePhiloxRngElementGenerator_def example_rng_defs
      GetNumberOfElementsPerPhiloxRngSample_def TF_ASSIGN_OR_RETURN_def)

lemma example_rng_sample:
  "CalculateSampleValues (0 :: 64 word) 0x299f31d0a4093822 0x0370734413198a2e 0
     = Inr [3054125326, 1639806848, 2772384088, 1028778815]"
  by code_simp

lemma example_rng_sample_state_1:
  "CalculateSampleValues (0 :: 64 word) 0x299f31d0a4093822 0x0370734413198a2e 1
     = Inr [253417993, 944673160, 3256460188, 4040439388]"
  by code_simp

lemma example_rng_element:
  "fst (PhiloxRngElementGenerator exact_target example_rng example_rng_generators
          0x299f31d0a4093822 0x0370734413198a2e 4 0 (Index [0, 1 :: 64 word] None) [1, 2, 3, 4])
   = Inr (I32 58)"
  "fst (PhiloxRngElementGenerator exact_target example_rng example_rng_generators
          0x299f31d0a4093822 0x0370734413198a2e 4 1 (Index [0, 1 :: 64 word] None) [1, 2, 3, 4])
   = Inr (I32 70)"
proof -
  have upt: "[0 ..< 4] = [0, 1, 2, 3]"
    by (simp add: upt_rec)
  show "fst (PhiloxRngElementGenerator exact_target example_rng example_rng_generators
          0x299f31d0a4093822 0x0370734413198a2e 4 0 (Index [0, 1 :: 64 word] None) [1, 2, 3, 4])
      = Inr (I32 58)"
    by (simp add: PhiloxRngElementGenerator_def example_rng_defs Linearize_def
        index_typed_const_def CreateUDiv_def CreateURem_def undefined_instruction_def
        TF_ASSIGN_OR_RETURN_def example_rng_sample store_counter_values_def upt
        load_raw_elem_value_def ConvertValueForDistribution_def at_operand_def operand_def
        isFloatingPointTy_def CreateSub_def CreateURem_values_def CreateAdd_def)
  show "fst (PhiloxRngElementGenerator exact_target example_rng example_rng_generators
          0x299f31d0a4093822 0x0370734413198a2e 4 1 (Index [0, 1 :: 64 word] None) [1, 2, 3, 4])
      = Inr (I32 70)"
    by (simp add: PhiloxRngElementGenerator_def example_rng_defs Linearize_def
        index_typed_const_def CreateUDiv_def CreateURem_def undefined_instruction_def
        TF_ASSIGN_OR_RETURN_def example_rng_sample_state_1 store_counter_values_def upt
        load_raw_elem_value_def ConvertValueForDistribution_def at_operand_def operand_def
        isFloatingPointTy_def CreateSub_def CreateURem_values_def CreateAdd_def)
qed

theorem philox_deterministic_witness:
  "MakePhiloxRngElementGenerator exact_target (example_rng_context 0x0370734413198a2e 5 0)
     example_rng example_rng_generators
   = Inr (PhiloxRngElementGenerator exact_target example_rng example_rng_generators
            0x299f31d0a4093822 0x0370734413198a2e 4 0)
 \<and> MakePhiloxRngElementGenerator exact_target (example_rng_context 0 0x0370734413198a2e 0)
     example_rng example_rng_generators
   = Inr (PhiloxRngElementGenerator exact_target example_rng example_rng_generators
            0x299f31d0a4093822 0x0370734413198a2e 4 0)
 \<and> fst (PhiloxRngElementGenerator exact_target example_rng example_rng_generators
          0x299f31d0a4093822 0x0370734413198a2e 4 0 (Index [0, 1 :: 64 word] None) [1, 2, 3, 4])
   = Inr (I32 58)
 \<and> fst (PhiloxRngElementGenerator exact_target example_rng example_rng_generators
          0x299f31d0a4093822 0x0370734413198a2e 4 0 (Index [0, 1 :: 64 word] None) [0, 0, 0, 0])
   = Inr (I32 58)
 \<and> philox_element exact_target example_rng example_rng_generators
       0x299f31d0a4093822 0x0370734413198a2e 0 (Index [0, 1 :: 64 word] None)
   = Inr (I32 58)"
proof -
  let ?generator = "PhiloxRngElementGenerator exact_target example_rng example_rng_generators
                      0x299f31d0a4093822 0x0370734413198a2e 4 0
                    :: (64, exact_float) RngElementGenerator"
  have made1: "MakePhiloxRngElementGenerator exact_target (example_rng_context 0x0370734413198a2e 5 0)
                 example_rng example_rng_generators = Inr ?generator"
    by (simp add: example_rng_made)
  have made2: "MakePhiloxRngElementGenerator exact_target (example_rng_context 0 0x0370734413198a2e 0)
                 example_rng example_rng_generators = Inr ?generator"
    by (simp add: example_rng_made)
  have both: "fst (?generator (Index [0, 1] None) [1, 2, 3, 4])
          = fst (?generator (Index [0, 1] None) [0, 0, 0, 0])
      \<and> fst (?generator (Index [0, 1] None) [1, 2, 3, 4])
          = philox_element exact_target example_rng example_rng_generators
              (RandomNew64 (example_rng_context 0x0370734413198a2e 5 0))
              (global_seed (example_rng_context 0x0370734413198a2e 5 0))
              (rng_state_value (example_rng_context 0x0370734413198a2e 5 0)) (Index [0, 1] None)"
    by (rule philox_deterministic [OF made1 made2])
      (simp_all add: example_rng_context_def global_seed_def)
  have e1: "fst (?generator (Index [0, 1] None) [1, 2, 3, 4]) = Inr (I32 58)"
    by (rule example_rng_element(1))
  have e2: "fst (?generator (Index [0, 1] None) [0, 0, 0, 0]) = Inr (I32 58)"
    by (rule trans [OF conjunct1 [OF both, symmetric] e1])
  have "philox_element exact_target example_rng example_rng_generators
          (RandomNew64 (example_rng_context 0x0370734413198a2e 5 0))
          (global_seed (example_rng_context 0x0370734413198a2e 5 0))
          (rng_state_value (example_rng_context 0x0370734413198a2e 5 0))
          (Index [0, 1 :: 64 word] None)
      = Inr (I32 58)"
    by (rule trans [OF conjunct2 [OF both, symmetric] e1])
  then have e3: "philox_element exact_target example_rng example_rng_generators
          0x299f31d0a4093822 0x0370734413198a2e 0 (Index [0, 1 :: 64 word] None)
      = Inr (I32 58)"
    by (simp add: example_rng_context_def global_seed_def)
  show ?thesis
    by (intro conjI) (rule made1 made2 e1 e2 e3)+
qed

text \<open>
  Claim C7 as it is stated fails: with the same module random number, the same global
  seed and the same output coordinate, the element is 58 when the state variable of the
  Philox algorithm holds 0 and 70 when it holds 1.
\<close>

theorem philox_depends_on_state_variable:
  "RandomNew64 (example_rng_context 0x0370734413198a2e 5 0)
     = RandomNew64 (example_rng_context 0x0370734413198a2e 5 1)
 \<and> global_seed (example_rng_context 0x0370734413198a2e 5 0)
     = global_seed (example_rng_context 0x0370734413198a2e 5 1)
 \<and> MakePhiloxRngElementGenerator exact_target (example_rng_context 0x0370734413198a2e 5 0)
     example_rng example_rng_generators
   = Inr (PhiloxRngElementGenerator exact_target example_rng example_rng_generators
            0x299f31d0a4093822 0x0370734413198a2e 4 0)
 \<and> MakePhiloxRngElementGenerator exact_target (example_rng_context 0x0370734413198a2e 5 1)
     example_rng example_rng_generators
   = Inr (PhiloxRngElementGenerator exact_target example_rng example_rng_generators
            0x299f31d0a4093822 0x0370734413198a2e 4 1)
 \<and> fst (PhiloxRngElementGenerator exact_target example_rng example_rng_generators
          0x299f31d0a4093822 0x0370734413198a2e 4 0 (Index [0, 1 :: 64 word] None) [1, 2, 3, 4])
   = Inr (I32 58)
 \<and> fst (PhiloxRngElementGenerator exact_target example_rng example_rng_generators
          0x299f31d0a4093822 0x0370734413198a2e 4 1 (Index [0, 1 :: 64 word] None) [1, 2, 3, 4])
   = Inr (I32 70)"
  using example_rng_element
    example_rng_made [of "0x0370734413198a2e" 5 0] example_rng_made [of "0x0370734413198a2e" 5 1]
  by (simp add: example_rng_context_def global_seed_def)

section \<open>Properties of the dispatch\<close>
















end
